theory Spec2Isabelle
  imports Main
begin

section \<open>Shared data model\<close>

text \<open>
  The persisted models of django-ca, as far as the views and the profile engine read
  them. \<open>CertificateAuthority\<close> and \<open>Certificate\<close> share the revocation fields
  of their common base class, so the two records extend one base record. Time stamps
  are seconds as integers; certificates, keys and byte strings are opaque strings.
\<close>

type_synonym bytes = string
type_synonym timestamp = int

datatype reason_flags =
    unspecified | key_compromise | ca_compromise | affiliation_changed | superseded
  | cessation_of_operation | certificate_hold | privilege_withdrawn | aa_compromise
  | remove_from_crl

record x509_cert_mixin =
  serial :: string
  cn :: string
  x509 :: string
  revoked :: bool
  revoked_date :: "timestamp option"
  revoked_reason :: "reason_flags option"

record certificate_authority = x509_cert_mixin +
  parent :: "string option"
  crl_url :: string
  ocsp_url :: string
  issuer_url :: string
  issuer_alt_name :: string
  authority_key_identifier :: string
  x509_subject :: "string \<rightharpoonup> string"

record certificate = x509_cert_mixin +
  ca :: string

text \<open>
  Modelled from the spec: \<open>get_revocation_time\<close> and \<open>get_revocation_reason\<close>
  live in models.py, which is not among the sources. Section 4.4 (revoked gives the
  revocation reason and the revocation time) and the tests
  \<open>test_get_revocation_time\<close> and \<open>test_get_revocation_reason\<close> fix them: both
  are \<open>None\<close> for an unrevoked object, and the stored value for a revoked one.
\<close>

definition get_revocation_time :: "'a x509_cert_mixin_scheme \<Rightarrow> timestamp option" where
  "get_revocation_time c = (if revoked c then revoked_date c else None)"

definition get_revocation_reason :: "'a x509_cert_mixin_scheme \<Rightarrow> reason_flags option" where
  "get_revocation_reason c = (if revoked c then revoked_reason c else None)"

section \<open>The OCSP responder (views.py)\<close>

subsection \<open>Requests, responses and exceptions\<close>

text \<open>
  A decoded OCSP request: the serial number asked for and the request extensions. The
  value of an extension is either a nonce or something the library does not
  recognise.
\<close>

datatype ocsp_extension_value = OCSPNonce bytes | UnrecognizedExtension string bytes

record ocsp_extension =
  ext_critical :: bool
  ext_value :: ocsp_extension_value

record ocsp_request =
  serial_number :: int
  req_extensions :: "ocsp_extension list"

datatype ocsp_response_status =
  SUCCESSFUL | MALFORMED_REQUEST | INTERNAL_ERROR | TRY_LATER | SIG_REQUIRED | UNAUTHORIZED

datatype ocsp_cert_status = GOOD | REVOKED | UNKNOWN

datatype hash_algorithm = SHA1 | SHA256 | SHA512

record single_response =
  resp_cert :: string
  resp_issuer :: string
  resp_algorithm :: hash_algorithm
  cert_status :: ocsp_cert_status
  this_update :: timestamp
  next_update :: timestamp
  revocation_time :: "timestamp option"
  revocation_reason :: "reason_flags option"

record basic_response =
  response :: single_response
  responder_id :: string
  resp_certificates :: "string list"
  resp_extensions :: "ocsp_extension list"
  signing_key :: string
  signing_hash :: hash_algorithm

text \<open>
  The body of an HTTP response is the DER encoding of an \<open>OCSPResponse\<close>. The
  encoding is not modelled: the body is the structure that is encoded.
\<close>

datatype ocsp_response = Unsuccessful ocsp_response_status | Successful basic_response

record http_response =
  content :: ocsp_response
  status_code :: nat
  content_type :: string

text \<open>The exceptions that can leave a view method.\<close>

datatype exn =
    CertificateAuthority_DoesNotExist
  | Certificate_DoesNotExist
  | MultipleObjectsReturned
  | IOError
  | ValueError
  | TypeError
  | Base64Error

subsection \<open>The environment of a view\<close>

text \<open>
  The view attributes (\<open>ca\<close>, \<open>responder_key\<close>, \<open>responder_cert\<close>,
  \<open>expires\<close>, \<open>ca_ocsp\<close>), the two database tables, the file system, the clock and
  the library functions whose code is not part of the repository.
\<close>

record ocsp_view =
  view_ca :: string
  responder_key :: string
  responder_cert :: string
  view_expires :: int
  ca_ocsp :: bool

record environment =
  certificate_authorities :: "certificate_authority list"
  certificates :: "certificate list"
  files :: "string \<rightharpoonup> bytes"
  utcnow :: timestamp
  b64decode :: "string \<Rightarrow> bytes option"
  load_der_ocsp_request :: "bytes \<Rightarrow> ocsp_request option"
  load_pem_private_key :: "bytes \<Rightarrow> string option"
  load_pem_x509_certificate :: "bytes \<Rightarrow> string option"
  int_to_hex :: "int \<Rightarrow> string"

text \<open>
  Django's \<open>QuerySet.get\<close>: exactly one match is returned, none raises
  \<open>DoesNotExist\<close> of the model, several raise \<open>MultipleObjectsReturned\<close>.
\<close>

fun queryset_get :: "exn \<Rightarrow> 'a list \<Rightarrow> exn + 'a" where
  "queryset_get dne [] = Inl dne"
| "queryset_get dne [x] = Inr x"
| "queryset_get dne (x # y # ys) = Inl MultipleObjectsReturned"

text \<open>
  Modelled from the spec: the manager method \<open>get_by_serial_or_cn\<close> is not among the
  sources. Section 4.4, step 3: the CA is resolved by the configured identifier, its
  serial or its name.
\<close>

definition get_by_serial_or_cn ::
  "environment \<Rightarrow> string \<Rightarrow> exn + certificate_authority" where
  "get_by_serial_or_cn env ident =
     queryset_get CertificateAuthority_DoesNotExist
       (filter (\<lambda>a. serial a = ident \<or> cn a = ident) (certificate_authorities env))"

definition get_ca :: "environment \<Rightarrow> ocsp_view \<Rightarrow> exn + certificate_authority" where
  "get_ca env view = get_by_serial_or_cn env (view_ca view)"

definition get_cert ::
  "environment \<Rightarrow> ocsp_view \<Rightarrow> certificate_authority \<Rightarrow> string \<Rightarrow> exn + x509_cert_mixin" where
  "get_cert env view a ser =
     (if ca_ocsp view then
        map_sum id x509_cert_mixin.truncate
          (queryset_get CertificateAuthority_DoesNotExist
             (filter (\<lambda>c. serial c = ser)
                (filter (\<lambda>c. parent c = Some (serial a)) (certificate_authorities env))))
      else
        map_sum id x509_cert_mixin.truncate
          (queryset_get Certificate_DoesNotExist
             (filter (\<lambda>c. serial c = ser)
                (filter (\<lambda>c. ca c = serial a) (certificates env)))))"

definition http_response :: "ocsp_response \<Rightarrow> http_response" where
  "http_response data =
     \<lparr>content = data, status_code = 200, content_type = ''application/ocsp-response''\<rparr>"

subsection \<open>\<open>OCSPView\<close>, the implementation on the cryptography library\<close>

text \<open>
  views.py defines \<open>OCSPView\<close> twice and picks one when the module is loaded: this
  one when the cryptography library provides OCSP, and one on ocspbuilder otherwise.
  The model is the first.
\<close>

definition fail :: "ocsp_response_status \<Rightarrow> http_response" where
  "fail status = http_response (Unsuccessful status)"

definition malformed_request :: http_response where
  "malformed_request = fail MALFORMED_REQUEST"

definition get_responder_key :: "environment \<Rightarrow> ocsp_view \<Rightarrow> exn + string" where
  "get_responder_key env view =
     (case files env (responder_key view) of
        None \<Rightarrow> Inl IOError
      | Some pem \<Rightarrow>
          (case load_pem_private_key env pem of
             None \<Rightarrow> Inl ValueError
           | Some k \<Rightarrow> Inr k))"

definition get_responder_cert :: "environment \<Rightarrow> ocsp_view \<Rightarrow> exn + string" where
  "get_responder_cert env view =
     (case files env (responder_cert view) of
        Some pem \<Rightarrow>
          (case load_pem_x509_certificate env pem of
             None \<Rightarrow> Inl ValueError
           | Some c \<Rightarrow> Inr c)
      | None \<Rightarrow>
          map_sum id x509
            (queryset_get Certificate_DoesNotExist
               (filter (\<lambda>c. serial c = responder_cert view) (certificates env))))"

text \<open>
  \<open>OCSPResponseBuilder.add_response\<close> of the cryptography library checks its
  arguments: a revocation time or reason is refused unless the status is revoked, and
  a revoked status needs a revocation time.
\<close>

definition add_response :: "single_response \<Rightarrow> exn + single_response" where
  "add_response r =
     (if cert_status r \<noteq> REVOKED then
        (if revocation_time r \<noteq> None \<or> revocation_reason r \<noteq> None
         then Inl ValueError else Inr r)
      else
        (if revocation_time r = None then Inl TypeError else Inr r))"

text \<open>
  The loop over the request extensions returns at the first critical extension that
  is not a nonce.
\<close>

fun unknown_critical :: "ocsp_extension list \<Rightarrow> bool" where
  "unknown_critical [] = False"
| "unknown_critical (ext # exts) =
     (case ext_value ext of
        OCSPNonce n \<Rightarrow> unknown_critical exts
      | UnrecognizedExtension oid v \<Rightarrow>
          (if ext_critical ext then True else unknown_critical exts))"

fun is_nonce :: "ocsp_extension \<Rightarrow> bool" where
  "is_nonce ext = (case ext_value ext of OCSPNonce n \<Rightarrow> True | UnrecognizedExtension oid v \<Rightarrow> False)"

text \<open>\<open>get_extension_for_class(OCSPNonce)\<close>: the nonce extension, if there is one.\<close>

definition nonce_extensions :: "ocsp_request \<Rightarrow> ocsp_extension list" where
  "nonce_extensions req =
     (case List.find is_nonce (req_extensions req) of None \<Rightarrow> [] | Some e \<Rightarrow> [e])"

definition build_response ::
  "environment \<Rightarrow> ocsp_view \<Rightarrow> ocsp_request \<Rightarrow> certificate_authority \<Rightarrow> x509_cert_mixin
     \<Rightarrow> exn + http_response" where
  "build_response env view req a cert =
     (case get_responder_key env view of
        Inl e \<Rightarrow> Inl e
      | Inr rkey \<Rightarrow>
     (case get_responder_cert env view of
        Inl e \<Rightarrow> Inl e
      | Inr rcert \<Rightarrow>
     (case add_response
             \<lparr>resp_cert = x509 cert, resp_issuer = x509 a, resp_algorithm = SHA1,
              cert_status = (if revoked cert then REVOKED else GOOD),
              this_update = utcnow env,
              next_update = utcnow env + view_expires view,
              revocation_time = get_revocation_time cert,
              revocation_reason = get_revocation_reason cert\<rparr> of
        Inl e \<Rightarrow> Inl e
      | Inr single \<Rightarrow>
          Inr (http_response (Successful
            \<lparr>response = single, responder_id = rcert, resp_certificates = [rcert],
             resp_extensions = nonce_extensions req,
             signing_key = rkey, signing_hash = SHA256\<rparr>)))))"

definition process_ocsp_request ::
  "environment \<Rightarrow> ocsp_view \<Rightarrow> bytes \<Rightarrow> exn + http_response" where
  "process_ocsp_request env view data =
     (case load_der_ocsp_request env data of
        None \<Rightarrow> Inr malformed_request
      | Some req \<Rightarrow>
          if unknown_critical (req_extensions req) then Inr malformed_request
          else
            (case get_ca env view of
               Inl CertificateAuthority_DoesNotExist \<Rightarrow> Inr (fail INTERNAL_ERROR)
             | Inl e \<Rightarrow> Inl e
             | Inr a \<Rightarrow>
                 (case get_cert env view a (int_to_hex env (serial_number req)) of
                    Inl Certificate_DoesNotExist \<Rightarrow> Inr (fail INTERNAL_ERROR)
                  | Inl CertificateAuthority_DoesNotExist \<Rightarrow> Inr (fail INTERNAL_ERROR)
                  | Inl e \<Rightarrow> Inl e
                  | Inr cert \<Rightarrow> build_response env view req a cert)))"

subsection \<open>The HTTP methods of \<open>OCSPBaseView\<close>\<close>

text \<open>
  \<open>get\<close> decodes the URL argument and catches every exception of the processing;
  \<open>post\<close> hands the body over with no handler of its own.
\<close>

definition get :: "environment \<Rightarrow> ocsp_view \<Rightarrow> string \<Rightarrow> exn + http_response" where
  "get env view data =
     (case (case b64decode env data of
              None \<Rightarrow> Inl Base64Error
            | Some raw \<Rightarrow> process_ocsp_request env view raw) of
        Inl e \<Rightarrow> Inr (fail INTERNAL_ERROR)
      | Inr r \<Rightarrow> Inr r)"

definition post :: "environment \<Rightarrow> ocsp_view \<Rightarrow> bytes \<Rightarrow> exn + http_response" where
  "post env view body = process_ocsp_request env view body"

subsection \<open>Lookup misses and unknown critical extensions\<close>

text \<open>
  The CA lookup misses when no CA has the configured serial or name; the certificate
  lookup misses when the CA has no certificate (in CA mode: no child CA) of the serial.
\<close>

definition unknown_ca :: "environment \<Rightarrow> ocsp_view \<Rightarrow> bool" where
  "unknown_ca env view \<longleftrightarrow>
     filter (\<lambda>a. serial a = view_ca view \<or> cn a = view_ca view) (certificate_authorities env) = []"

definition unknown_cert ::
  "environment \<Rightarrow> ocsp_view \<Rightarrow> certificate_authority \<Rightarrow> string \<Rightarrow> bool" where
  "unknown_cert env view a ser \<longleftrightarrow>
     (if ca_ocsp view then
        filter (\<lambda>c. serial c = ser)
          (filter (\<lambda>c. parent c = Some (serial a)) (certificate_authorities env)) = []
      else
        filter (\<lambda>c. serial c = ser) (filter (\<lambda>c. ca c = serial a) (certificates env)) = [])"

definition has_unknown_critical :: "ocsp_request \<Rightarrow> bool" where
  "has_unknown_critical req =
     list_ex (\<lambda>ext. ext_critical ext \<and> \<not> is_nonce ext) (req_extensions req)"

subsection \<open>A test database for the responder\<close>

text \<open>
  One root CA with a child CA, one good and one revoked certificate, and a responder
  whose key and certificate are files. The decoder knows five requests by name.
\<close>

definition root_ca :: certificate_authority where
  "root_ca =
     \<lparr>serial = ''5A'', cn = ''ca.example.com'', x509 = ''root-pub'', revoked = False,
      revoked_date = None, revoked_reason = None, parent = None,
      crl_url = ''http://crl.example.com'' @ [CHR 0x0A] @ ''http://crl.example.org'',
      ocsp_url = ''http://ocsp.example.com'', issuer_url = ''http://ca.example.com/ca.crt'',
      issuer_alt_name = ''http://ian.example.com'', authority_key_identifier = ''AA:BB'',
      x509_subject = [''CN'' \<mapsto> ''ca.example.com'']\<rparr>"

definition child_ca :: certificate_authority where
  "child_ca =
     \<lparr>serial = ''5B'', cn = ''child.example.com'', x509 = ''child-pub'', revoked = True,
      revoked_date = Some 900, revoked_reason = Some ca_compromise, parent = Some ''5A'',
      crl_url = [], ocsp_url = [], issuer_url = [], issuer_alt_name = [],
      authority_key_identifier = ''CC:DD'',
      x509_subject = [''CN'' \<mapsto> ''child.example.com'']\<rparr>"

definition good_cert :: certificate where
  "good_cert =
     \<lparr>serial = ''0A'', cn = ''good.example.com'', x509 = ''good-pub'', revoked = False,
      revoked_date = None, revoked_reason = None, ca = ''5A''\<rparr>"

definition revoked_cert :: certificate where
  "revoked_cert =
     \<lparr>serial = ''0B'', cn = ''revoked.example.com'', x509 = ''revoked-pub'', revoked = True,
      revoked_date = Some 1000, revoked_reason = Some key_compromise, ca = ''5A''\<rparr>"

definition test_decoder :: "bytes \<Rightarrow> ocsp_request option" where
  "test_decoder data =
     (if data = ''good'' then Some \<lparr>serial_number = 10, req_extensions = []\<rparr>
      else if data = ''revoked'' then
        Some \<lparr>serial_number = 11,
              req_extensions = [\<lparr>ext_critical = False, ext_value = OCSPNonce ''n1''\<rparr>]\<rparr>
      else if data = ''critical'' then
        Some \<lparr>serial_number = 10,
              req_extensions =
                [\<lparr>ext_critical = True, ext_value = OCSPNonce ''n2''\<rparr>,
                 \<lparr>ext_critical = True, ext_value = UnrecognizedExtension ''1.2.3'' ''x''\<rparr>]\<rparr>
      else if data = ''unknown'' then Some \<lparr>serial_number = 12, req_extensions = []\<rparr>
      else None)"

definition test_hex :: "int \<Rightarrow> string" where
  "test_hex i = (if i = 10 then ''0A'' else if i = 11 then ''0B'' else ''0C'')"

definition test_env :: environment where
  "test_env =
     \<lparr>certificate_authorities = [root_ca, child_ca],
      certificates = [good_cert, revoked_cert],
      files = [''/ocsp/key.pem'' \<mapsto> ''responder-key'', ''/ocsp/cert.pem'' \<mapsto> ''responder-pub''],
      utcnow = 5000,
      b64decode = Some,
      load_der_ocsp_request = test_decoder,
      load_pem_private_key = Some,
      load_pem_x509_certificate = Some,
      int_to_hex = test_hex\<rparr>"

definition test_view :: ocsp_view where
  "test_view =
     \<lparr>view_ca = ''5A'', responder_key = ''/ocsp/key.pem'', responder_cert = ''/ocsp/cert.pem'',
      view_expires = 600, ca_ocsp = False\<rparr>"

section \<open>The profile engine (profiles.py)\<close>

subsection \<open>Subjects, general names and extensions\<close>

text \<open>
  Modelled from the spec: the classes \<open>Subject\<close>, \<open>Extension\<close> and its subclasses
  and the helpers of utils.py are not among the sources. A subject maps a field name
  to its value (section 4.2, step 3: a field-by-field update, unspecified fields are
  inherited). An extension is its class, its criticality and its typed value (section
  3); the key of an extension is fixed by its class. \<open>subject.get('CN')\<close> is tested
  for truth, so an empty Common Name counts as none.
\<close>

type_synonym subject = "string \<rightharpoonup> string"

definition has_cn :: "subject \<Rightarrow> bool" where
  "has_cn s = (case s ''CN'' of None \<Rightarrow> False | Some v \<Rightarrow> v \<noteq> [])"

datatype general_name =
    DNSName string | UniformResourceIdentifier string | IPAddress string
  | RFC822Name string | DirectoryName string | OtherName string

record distribution_point =
  full_name :: "string list"
  relative_name :: "string option"
  crl_issuer :: "string list"
  reasons :: "string list"

datatype extension =
    AuthorityInformationAccess bool "general_name list" "general_name list"
  | AuthorityKeyIdentifier bool string
  | BasicConstraints bool bool "nat option"
  | CRLDistributionPoints bool "distribution_point list"
  | ExtendedKeyUsage bool "string list"
  | IssuerAlternativeName bool "general_name list"
  | KeyUsage bool "string list"
  | NameConstraints bool "general_name list" "general_name list"
  | OCSPNoCheck bool
  | SubjectAlternativeName bool "general_name list"
  | SubjectKeyIdentifier bool string
  | TLSFeature bool "string list"

datatype ext_key =
    AuthorityInformationAccess_key
  | AuthorityKeyIdentifier_key
  | BasicConstraints_key
  | CRLDistributionPoints_key
  | ExtendedKeyUsage_key
  | IssuerAlternativeName_key
  | KeyUsage_key
  | NameConstraints_key
  | OCSPNoCheck_key
  | SubjectAlternativeName_key
  | SubjectKeyIdentifier_key
  | TLSFeature_key

fun key :: "extension \<Rightarrow> ext_key" where
  "key (AuthorityInformationAccess c i p) = AuthorityInformationAccess_key"
| "key (AuthorityKeyIdentifier c v) = AuthorityKeyIdentifier_key"
| "key (BasicConstraints c a l) = BasicConstraints_key"
| "key (CRLDistributionPoints c v) = CRLDistributionPoints_key"
| "key (ExtendedKeyUsage c v) = ExtendedKeyUsage_key"
| "key (IssuerAlternativeName c v) = IssuerAlternativeName_key"
| "key (KeyUsage c v) = KeyUsage_key"
| "key (NameConstraints c p e) = NameConstraints_key"
| "key (OCSPNoCheck c) = OCSPNoCheck_key"
| "key (SubjectAlternativeName c v) = SubjectAlternativeName_key"
| "key (SubjectKeyIdentifier c v) = SubjectKeyIdentifier_key"
| "key (TLSFeature c v) = TLSFeature_key"

text \<open>
  What can be raised while a profile is built or a certificate is issued. The source
  raises \<open>ValueError\<close> with two different messages, which are two errors here.
\<close>

datatype parse_error = IDNAError | OtherParseError

datatype profile_error =
    NoIdentityError
  | InvalidCommonName string
  | GeneralNameError parse_error
  | ExtensionError
  | HashAlgorithmError
  | AttributeError
  | KeyError
  | PrivateKeyError
  | SignalError

text \<open>
  A configuration literal (what a profile in the settings holds where it does not
  hold an \<open>Extension\<close> instance).
\<close>

datatype raw =
  RawNone | RawBool bool | RawStr string | RawList "raw list" | RawDict "(string \<times> raw) list"

text \<open>
  The code that profiles.py imports and the settings it reads, taken as parameters:
  \<open>parse_general_name\<close>, \<open>shlex_split\<close> with the separator \<open>','\<close>,
  \<open>parse_hash_algorithm\<close>, the criticality an extension class gets when built with no
  argument, the constructor of the extension class registered under a key
  (\<open>KEY_TO_EXTENSION[key](literal)\<close>, \<open>KeyUsage(literal)\<close>, \<open>BasicConstraints()\<close>;
  \<open>None\<close> when it raises), the two settings, the key identifier of a public key, the
  private key of a CA under a password, and whether the receivers of the
  \<open>pre_issue_cert\<close> signal let the issuance pass.
\<close>

record library =
  parse_general_name :: "string \<Rightarrow> parse_error + general_name"
  shlex_split :: "string \<Rightarrow> string list"
  parse_hash_algorithm :: "string option \<Rightarrow> hash_algorithm option"
  default_critical :: "ext_key \<Rightarrow> bool"
  key_to_extension :: "ext_key \<Rightarrow> raw option \<Rightarrow> extension option"
  CA_DEFAULT_SUBJECT :: subject
  CA_DEFAULT_EXPIRES :: int
  key_identifier :: "string \<Rightarrow> string"
  private_key :: "certificate_authority \<Rightarrow> string option \<Rightarrow> string option"
  pre_issue_cert :: "subject \<Rightarrow> (ext_key \<rightharpoonup> extension) \<Rightarrow> bool"

definition and_then :: "'e + 'a \<Rightarrow> ('a \<Rightarrow> 'e + 'b) \<Rightarrow> 'e + 'b" where
  "and_then r f = (case r of Inl e \<Rightarrow> Inl e | Inr x \<Rightarrow> f x)"

text \<open>An optional argument and the value that stands in for \<open>None\<close>.\<close>

definition or_default :: "'a option \<Rightarrow> 'a \<Rightarrow> 'a" where
  "or_default arg d = (case arg of None \<Rightarrow> d | Some v \<Rightarrow> v)"

subsection \<open>\<open>Profile.__init__\<close>\<close>

datatype extension_config = Instance extension | Literal raw

record profile_config =
  config_subject :: "subject option"
  config_algorithm :: "string option"
  config_extensions :: "(ext_key \<times> extension_config) list option"
  config_cn_in_san :: bool
  config_expires :: "int option"
  config_issuer_name :: "subject option"
  config_description :: string
  config_add_crl_url :: bool
  config_add_ocsp_url :: bool
  config_add_issuer_url :: bool
  config_add_issuer_alternative_name :: bool
  kwargs :: "string \<rightharpoonup> raw"

record profile =
  name :: string
  subject :: subject
  algorithm :: hash_algorithm
  extensions :: "ext_key \<rightharpoonup> extension"
  cn_in_san :: bool
  expires :: int
  issuer_name :: "subject option"
  add_crl_url :: bool
  add_issuer_url :: bool
  add_ocsp_url :: bool
  add_issuer_alternative_name :: bool
  description :: string

text \<open>\<open>dict.setdefault\<close> on a dictionary of values.\<close>

definition dict_setdefault :: "('k \<rightharpoonup> 'v) \<Rightarrow> 'k \<Rightarrow> 'v \<Rightarrow> ('k \<rightharpoonup> 'v)" where
  "dict_setdefault m k v = (case m k of None \<Rightarrow> m(k \<mapsto> v) | Some old \<Rightarrow> m)"

definition construct :: "library \<Rightarrow> ext_key \<Rightarrow> raw option \<Rightarrow> profile_error + extension" where
  "construct lib k arg =
     (case key_to_extension lib k arg of None \<Rightarrow> Inl ExtensionError | Some e \<Rightarrow> Inr e)"

text \<open>
  The loop that casts the configured extensions to their classes; the list holds the
  items of the dictionary in iteration order.
\<close>

fun cast_extensions ::
  "library \<Rightarrow> (ext_key \<times> extension_config) list \<Rightarrow> (ext_key \<rightharpoonup> extension)
     \<Rightarrow> profile_error + (ext_key \<rightharpoonup> extension)" where
  "cast_extensions lib [] m = Inr m"
| "cast_extensions lib ((k, Instance e) # rest) m = cast_extensions lib rest (m(k \<mapsto> e))"
| "cast_extensions lib ((k, Literal r) # rest) m =
     and_then (construct lib k (Some r)) (\<lambda>e. cast_extensions lib rest (m(k \<mapsto> e)))"

text \<open>A deprecated keyword that sets an extension: \<open>keyUsage\<close>, \<open>extendedKeyUsage\<close>, \<open>TLSFeature\<close>.\<close>

definition deprecated_extension ::
  "library \<Rightarrow> (string \<rightharpoonup> raw) \<Rightarrow> string \<Rightarrow> ext_key \<Rightarrow> (ext_key \<rightharpoonup> extension)
     \<Rightarrow> profile_error + (ext_key \<rightharpoonup> extension)" where
  "deprecated_extension lib kw word k m =
     (case kw word of
        None \<Rightarrow> Inr m
      | Some r \<Rightarrow> and_then (construct lib k (Some r)) (\<lambda>e. Inr (m(k \<mapsto> e))))"

definition deprecated_ocsp_no_check ::
  "library \<Rightarrow> (string \<rightharpoonup> raw) \<Rightarrow> (ext_key \<rightharpoonup> extension)
     \<Rightarrow> profile_error + (ext_key \<rightharpoonup> extension)" where
  "deprecated_ocsp_no_check lib kw m =
     (case kw ''ocsp_no_check'' of
        None \<Rightarrow> Inr m
      | Some r \<Rightarrow> and_then (construct lib OCSPNoCheck_key None) (\<lambda>e. Inr (m(OCSPNoCheck_key \<mapsto> e))))"

text \<open>The deprecated keyword \<open>desc\<close>; a description is a string.\<close>

definition deprecated_desc :: "(string \<rightharpoonup> raw) \<Rightarrow> string \<Rightarrow> string" where
  "deprecated_desc kw d = (case kw ''desc'' of Some (RawStr t) \<Rightarrow> t | other \<Rightarrow> d)"

text \<open>The literal \<open>{'value': {'ca': False}}\<close> of the last line of the constructor.\<close>

definition ca_false_literal :: raw where
  "ca_false_literal = RawDict [(''value'', RawDict [(''ca'', RawBool False)])]"

definition Profile_init :: "library \<Rightarrow> string \<Rightarrow> profile_config \<Rightarrow> profile_error + profile" where
  "Profile_init lib nm cfg =
     (case parse_hash_algorithm lib (config_algorithm cfg) of
        None \<Rightarrow> Inl HashAlgorithmError
      | Some alg \<Rightarrow>
     and_then (cast_extensions lib (or_default (config_extensions cfg) []) Map.empty)
       (\<lambda>exts0.
     and_then (construct lib BasicConstraints_key None)
       (\<lambda>early.
     and_then (deprecated_extension lib (kwargs cfg) ''keyUsage'' KeyUsage_key
                 (dict_setdefault exts0 BasicConstraints_key early))
       (\<lambda>exts1.
     and_then (deprecated_extension lib (kwargs cfg) ''extendedKeyUsage'' ExtendedKeyUsage_key exts1)
       (\<lambda>exts2.
     and_then (deprecated_extension lib (kwargs cfg) ''TLSFeature'' TLSFeature_key exts2)
       (\<lambda>exts3.
     and_then (deprecated_ocsp_no_check lib (kwargs cfg) exts3)
       (\<lambda>exts4.
     and_then (construct lib BasicConstraints_key (Some ca_false_literal))
       (\<lambda>late.
          Inr \<lparr>name = nm,
               subject = (case config_subject cfg of
                            None \<Rightarrow> CA_DEFAULT_SUBJECT lib | Some sub \<Rightarrow> sub),
               algorithm = alg,
               extensions = dict_setdefault exts4 BasicConstraints_key late,
               cn_in_san = config_cn_in_san cfg,
               expires = (case config_expires cfg of
                            None \<Rightarrow> CA_DEFAULT_EXPIRES lib
                          | Some t \<Rightarrow> if t = 0 then CA_DEFAULT_EXPIRES lib else t),
               issuer_name = config_issuer_name cfg,
               add_crl_url = config_add_crl_url cfg,
               add_issuer_url = config_add_issuer_url cfg,
               add_ocsp_url = config_add_ocsp_url cfg,
               add_issuer_alternative_name = config_add_issuer_alternative_name cfg,
               description = deprecated_desc (kwargs cfg) (config_description cfg)\<rparr>))))))))"

subsection \<open>Python strings: \<open>str.split()\<close> and \<open>str.strip()\<close>\<close>

text \<open>
  The white space of \<open>str.split()\<close> with no argument. A character stands for a code
  point below 256: tab, line feed, vertical tab, form feed, carriage return, the four
  separators 28 to 31, the space, the next-line character 133 and the no-break space
  160. Runs of white space separate the words and no word is empty.
\<close>

definition is_space :: "char \<Rightarrow> bool" where
  "is_space c =
     (let n = (of_char c :: nat)
      in (9 \<le> n \<and> n \<le> 13) \<or> (28 \<le> n \<and> n \<le> 32) \<or> n = 133 \<or> n = 160)"

fun split_words :: "string \<Rightarrow> string \<Rightarrow> string list" where
  "split_words w [] = (if w = [] then [] else [w])"
| "split_words w (c # cs) =
     (if is_space c then (if w = [] then split_words [] cs else w # split_words [] cs)
      else split_words (w @ [c]) cs)"

definition py_split :: "string \<Rightarrow> string list" where
  "py_split s = split_words [] s"

definition py_strip :: "string \<Rightarrow> string" where
  "py_strip s = rev (dropWhile is_space (rev (dropWhile is_space s)))"

subsection \<open>The objects of one \<open>create_cert\<close> call\<close>

text \<open>
  \<open>create_cert\<close> keeps two dictionaries, \<open>extensions\<close> (built from the caller's list)
  and \<open>cert_extensions\<close> (a deep copy of the profile's, updated with the caller's), and
  then appends to the objects in place. \<open>dict.update\<close> stores the caller's objects
  themselves, so an object can be reached through both dictionaries. The model keeps
  the objects in a store. An object is addressed by where it came from and the key it
  is stored under: a copy of a profile extension, an object of the caller, or an
  object that \<open>setdefault\<close> created. A dictionary maps a key to the origin of the
  object it holds under that key.
\<close>

datatype origin = ProfileCopy | CallerObject | CreatedObject

type_synonym address = "origin \<times> ext_key"
type_synonym ext_dict = "ext_key \<rightharpoonup> origin"

record issue_state =
  store :: "address \<rightharpoonup> extension"
  extensions_dict :: ext_dict
  cert_extensions :: ext_dict
  cert_subject :: subject

definition lookup :: "ext_dict \<Rightarrow> (address \<rightharpoonup> extension) \<Rightarrow> ext_key \<Rightarrow> extension option" where
  "lookup d h k = (case d k of None \<Rightarrow> None | Some orig \<Rightarrow> h (orig, k))"

text \<open>The extension set of the certificate-to-be: \<open>cert_extensions\<close> with its objects read.\<close>

definition extension_set :: "issue_state \<Rightarrow> (ext_key \<rightharpoonup> extension)" where
  "extension_set s = lookup (cert_extensions s) (store s)"

text \<open>\<open>{e.key: e for e in extensions}\<close>: a later object replaces an earlier one of its key.\<close>

definition caller_objects :: "extension list \<Rightarrow> (ext_key \<rightharpoonup> extension)" where
  "caller_objects exts = fold (\<lambda>e m. m(key e \<mapsto> e)) exts Map.empty"

definition caller_dict :: "extension list option \<Rightarrow> (ext_key \<rightharpoonup> extension)" where
  "caller_dict exts = (case exts of None \<Rightarrow> Map.empty | Some es \<Rightarrow> caller_objects es)"

definition initial_state :: "profile \<Rightarrow> extension list option \<Rightarrow> issue_state" where
  "initial_state p exts =
     (let objs = caller_dict exts;
          from_caller = (\<lambda>k. map_option (\<lambda>e. CallerObject) (objs k));
          copies = (\<lambda>k. map_option (\<lambda>e. ProfileCopy) (extensions p k))
      in \<lparr>store = (\<lambda>(orig, k). case orig of
                       ProfileCopy \<Rightarrow> extensions p k
                     | CallerObject \<Rightarrow> objs k
                     | CreatedObject \<Rightarrow> None),
          extensions_dict = from_caller,
          cert_extensions = copies ++ from_caller,
          cert_subject = subject p\<rparr>)"

text \<open>\<open>extensions.setdefault(key, obj)\<close> on \<open>cert_extensions\<close>.\<close>

definition setdefault :: "issue_state \<Rightarrow> ext_key \<Rightarrow> extension \<Rightarrow> issue_state" where
  "setdefault s k v =
     (case cert_extensions s k of
        Some orig \<Rightarrow> s
      | None \<Rightarrow> s\<lparr>store := (store s)((CreatedObject, k) \<mapsto> v),
                  cert_extensions := (cert_extensions s)(k \<mapsto> CreatedObject)\<rparr>)"

text \<open>
  An in-place change of the object \<open>extensions[key]\<close> of \<open>cert_extensions\<close>. A
  missing key raises \<open>KeyError\<close>. The caller's dictionary holds each object under
  the key of its class, and \<open>Profile.__init__\<close> casts a configured value to the class
  registered under its key; an object of another class, which lacks the attribute
  that the step appends to, raises \<open>AttributeError\<close>.
\<close>

definition mutate ::
  "issue_state \<Rightarrow> ext_key \<Rightarrow> (extension \<Rightarrow> profile_error + extension)
     \<Rightarrow> profile_error + issue_state" where
  "mutate s k f =
     (case cert_extensions s k of
        None \<Rightarrow> Inl KeyError
      | Some orig \<Rightarrow>
          (case store s (orig, k) of
             None \<Rightarrow> Inl KeyError
           | Some e \<Rightarrow> and_then (f e) (\<lambda>e'. Inr (s\<lparr>store := (store s)((orig, k) \<mapsto> e')\<rparr>))))"

fun append_distribution_point ::
  "distribution_point \<Rightarrow> extension \<Rightarrow> profile_error + extension" where
  "append_distribution_point dp (CRLDistributionPoints c v) = Inr (CRLDistributionPoints c (v @ [dp]))"
| "append_distribution_point dp e = Inl AttributeError"

fun append_ocsp :: "general_name \<Rightarrow> extension \<Rightarrow> profile_error + extension" where
  "append_ocsp g (AuthorityInformationAccess c i p) = Inr (AuthorityInformationAccess c i (p @ [g]))"
| "append_ocsp g e = Inl AttributeError"

fun append_issuers :: "general_name \<Rightarrow> extension \<Rightarrow> profile_error + extension" where
  "append_issuers g (AuthorityInformationAccess c i p) = Inr (AuthorityInformationAccess c (i @ [g]) p)"
| "append_issuers g e = Inl AttributeError"

text \<open>
  Modelled from the spec: \<open>extend\<close>, \<open>append\<close>, membership and \<open>get_common_name\<close> of
  the list extensions are not among the sources. Section 4.2, steps 4 and 5: entries
  are appended, the name of the CN is appended if not already present, and the Common
  Name is taken from the first DNS entry of the SubjectAlternativeName.
\<close>

fun extend_names :: "general_name list \<Rightarrow> extension \<Rightarrow> profile_error + extension" where
  "extend_names gs (IssuerAlternativeName c v) = Inr (IssuerAlternativeName c (v @ gs))"
| "extend_names gs (SubjectAlternativeName c v) = Inr (SubjectAlternativeName c (v @ gs))"
| "extend_names gs e = Inl AttributeError"

fun names :: "extension \<Rightarrow> general_name list" where
  "names (IssuerAlternativeName c v) = v"
| "names (SubjectAlternativeName c v) = v"
| "names e = []"

fun first_dns :: "general_name list \<Rightarrow> string option" where
  "first_dns [] = None"
| "first_dns (DNSName d # gs) = Some d"
| "first_dns (g # gs) = first_dns gs"

definition get_common_name :: "extension \<Rightarrow> string option" where
  "get_common_name e = first_dns (names e)"

fun parse_all ::
  "library \<Rightarrow> string list \<Rightarrow> profile_error + general_name list" where
  "parse_all lib [] = Inr []"
| "parse_all lib (x # xs) =
     (case parse_general_name lib x of
        Inl e \<Rightarrow> Inl (GeneralNameError e)
      | Inr g \<Rightarrow> and_then (parse_all lib xs) (\<lambda>gs. Inr (g # gs)))"

definition parse_name :: "library \<Rightarrow> string \<Rightarrow> profile_error + general_name" where
  "parse_name lib x =
     (case parse_general_name lib x of Inl e \<Rightarrow> Inl (GeneralNameError e) | Inr g \<Rightarrow> Inr g)"

definition DistributionPoint :: "string list \<Rightarrow> distribution_point" where
  "DistributionPoint urls = \<lparr>full_name = urls, relative_name = None, crl_issuer = [], reasons = []\<rparr>"

text \<open>
  Modelled from the spec: \<open>get_authority_key_identifier_extension\<close> of the CA is not
  among the sources; it is the (non-critical) AuthorityKeyIdentifier of the CA's key.
\<close>

definition get_authority_key_identifier_extension :: "certificate_authority \<Rightarrow> extension" where
  "get_authority_key_identifier_extension a =
     AuthorityKeyIdentifier False (authority_key_identifier a)"

subsection \<open>\<open>Profile._update_from_ca\<close>\<close>

definition update_crl_url :: "library \<Rightarrow> certificate_authority \<Rightarrow> bool \<Rightarrow> issue_state
     \<Rightarrow> profile_error + issue_state" where
  "update_crl_url lib a flag s =
     (if flag \<and> crl_url a \<noteq> [] then
        mutate
          (setdefault s CRLDistributionPoints_key
             (CRLDistributionPoints (default_critical lib CRLDistributionPoints_key) []))
          CRLDistributionPoints_key
          (append_distribution_point (DistributionPoint (map py_strip (py_split (crl_url a)))))
      else Inr s)"

definition update_ocsp_url :: "library \<Rightarrow> certificate_authority \<Rightarrow> bool \<Rightarrow> issue_state
     \<Rightarrow> profile_error + issue_state" where
  "update_ocsp_url lib a flag s =
     (if flag \<and> ocsp_url a \<noteq> [] then
        and_then (parse_name lib (ocsp_url a))
          (\<lambda>g. mutate
                  (setdefault s AuthorityInformationAccess_key
                     (AuthorityInformationAccess
                        (default_critical lib AuthorityInformationAccess_key) [] []))
                  AuthorityInformationAccess_key (append_ocsp g))
      else Inr s)"

definition update_issuer_url :: "library \<Rightarrow> certificate_authority \<Rightarrow> bool \<Rightarrow> issue_state
     \<Rightarrow> profile_error + issue_state" where
  "update_issuer_url lib a flag s =
     (if flag \<and> issuer_url a \<noteq> [] then
        and_then (parse_name lib (issuer_url a))
          (\<lambda>g. mutate
                  (setdefault s AuthorityInformationAccess_key
                     (AuthorityInformationAccess
                        (default_critical lib AuthorityInformationAccess_key) [] []))
                  AuthorityInformationAccess_key (append_issuers g))
      else Inr s)"

definition update_issuer_alt_name :: "library \<Rightarrow> certificate_authority \<Rightarrow> bool \<Rightarrow> issue_state
     \<Rightarrow> profile_error + issue_state" where
  "update_issuer_alt_name lib a flag s =
     (if flag \<and> issuer_alt_name a \<noteq> [] then
        and_then (parse_all lib (shlex_split lib (issuer_alt_name a)))
          (\<lambda>gs. mutate
                   (setdefault s IssuerAlternativeName_key
                      (IssuerAlternativeName (default_critical lib IssuerAlternativeName_key) []))
                   IssuerAlternativeName_key (extend_names gs))
      else Inr s)"

definition update_from_ca ::
  "library \<Rightarrow> profile \<Rightarrow> certificate_authority \<Rightarrow> bool \<Rightarrow> bool \<Rightarrow> bool \<Rightarrow> bool \<Rightarrow> issue_state
     \<Rightarrow> profile_error + (subject \<times> issue_state)" where
  "update_from_ca lib p a crl ocsp issuer ian s =
     and_then (update_crl_url lib a crl
                 (setdefault s AuthorityKeyIdentifier_key
                    (get_authority_key_identifier_extension a)))
       (\<lambda>s1.
     and_then (update_ocsp_url lib a ocsp s1)
       (\<lambda>s2.
     and_then (update_issuer_url lib a issuer s2)
       (\<lambda>s3.
     and_then (update_issuer_alt_name lib a ian s3)
       (\<lambda>s4.
          Inr (case issuer_name p of Some n \<Rightarrow> n | None \<Rightarrow> x509_subject a, s4)))))"

subsection \<open>\<open>Profile._update_san_from_cn\<close>\<close>

definition update_san_from_cn :: "library \<Rightarrow> bool \<Rightarrow> issue_state \<Rightarrow> profile_error + issue_state" where
  "update_san_from_cn lib in_san s =
     (if has_cn (cert_subject s) \<and> in_san then
        (case parse_general_name lib (case cert_subject s ''CN'' of None \<Rightarrow> [] | Some v \<Rightarrow> v) of
           Inl IDNAError \<Rightarrow>
             Inl (InvalidCommonName (case cert_subject s ''CN'' of None \<Rightarrow> [] | Some v \<Rightarrow> v))
         | Inl OtherParseError \<Rightarrow> Inl (GeneralNameError OtherParseError)
         | Inr g \<Rightarrow>
             (let s1 = setdefault s SubjectAlternativeName_key
                         (SubjectAlternativeName
                            (default_critical lib SubjectAlternativeName_key) [])
              in case extension_set s1 SubjectAlternativeName_key of
                   None \<Rightarrow> Inl KeyError
                 | Some san \<Rightarrow>
                     if g \<in> set (names san) then Inr s1
                     else mutate s1 SubjectAlternativeName_key (extend_names [g])))
      else if \<not> has_cn (cert_subject s) \<and> cert_extensions s SubjectAlternativeName_key \<noteq> None then
        (case extension_set s SubjectAlternativeName_key of
           None \<Rightarrow> Inl KeyError
         | Some san \<Rightarrow>
             (case get_common_name san of
                None \<Rightarrow> Inr s
              | Some v \<Rightarrow> Inr (s\<lparr>cert_subject := (cert_subject s)(''CN'' \<mapsto> v)\<rparr>)))
      else Inr s)"

subsection \<open>\<open>Profile.create_cert\<close>\<close>

record create_cert_args =
  csr :: string
  subject_arg :: "subject option"
  expires_arg :: "int option"
  algorithm_arg :: "string option"
  extensions_arg :: "extension list option"
  cn_in_san_arg :: "bool option"
  add_crl_url_arg :: "bool option"
  add_ocsp_url_arg :: "bool option"
  add_issuer_url_arg :: "bool option"
  add_issuer_alternative_name_arg :: "bool option"
  password :: "string option"

record x509_certificate =
  public_key :: string
  issuer :: subject
  subject_name :: subject
  x509_extensions :: "ext_key \<rightharpoonup> extension"
  not_after_delta :: int
  signature_algorithm :: hash_algorithm
  signed_with :: string

text \<open>
  The steps of \<open>create_cert\<close> up to the check of the names: the two dictionaries,
  the values from the CA, the subject, the hash algorithm and the name of the CN. The
  result is the issuer name, the hash algorithm and the state of the objects.
\<close>

definition prepare ::
  "library \<Rightarrow> profile \<Rightarrow> certificate_authority \<Rightarrow> create_cert_args
     \<Rightarrow> profile_error + (subject \<times> hash_algorithm \<times> issue_state)" where
  "prepare lib p a args =
     and_then (update_from_ca lib p a
                 (or_default (add_crl_url_arg args) (add_crl_url p))
                 (or_default (add_ocsp_url_arg args) (add_ocsp_url p))
                 (or_default (add_issuer_url_arg args) (add_issuer_url p))
                 (or_default (add_issuer_alternative_name_arg args)
                    (add_issuer_alternative_name p))
                 (initial_state p (extensions_arg args)))
       (\<lambda>(issuer_nm, s1).
     and_then (Inr (s1\<lparr>cert_subject :=
                          cert_subject s1 ++ or_default (subject_arg args) Map.empty\<rparr>))
       (\<lambda>s2.
     and_then (case algorithm_arg args of
                 None \<Rightarrow> Inr (algorithm p)
               | Some alg \<Rightarrow>
                   (case parse_hash_algorithm lib (Some alg) of
                      None \<Rightarrow> Inl HashAlgorithmError
                    | Some h \<Rightarrow> Inr h))
       (\<lambda>alg.
     and_then (update_san_from_cn lib (or_default (cn_in_san_arg args) (cn_in_san p)) s2)
       (\<lambda>s3. Inr (issuer_nm, alg, s3)))))"

text \<open>
  The check of the names reads the \<open>subject\<close> argument and the \<open>extensions\<close>
  dictionary of the caller, with its objects as they are at that moment.
\<close>

definition caller_set :: "issue_state \<Rightarrow> (ext_key \<rightharpoonup> extension)" where
  "caller_set s = lookup (extensions_dict s) (store s)"

definition names_missing :: "create_cert_args \<Rightarrow> issue_state \<Rightarrow> bool" where
  "names_missing args s =
     (\<not> has_cn (or_default (subject_arg args) Map.empty)
      \<and> (case caller_set s SubjectAlternativeName_key of
           None \<Rightarrow> True
         | Some san \<Rightarrow> names san = []))"

text \<open>
  The object \<open>SubjectAlternativeName()\<close>, and two relations on states for the proofs.
  In an aliased state every object of the
  caller's dictionary is the object \<open>cert_extensions\<close> holds under the same key. A
  step leaves a state unchanged except for a set of keys when it keeps the caller's
  dictionary, the aliasing and the objects under all other keys.
\<close>

definition san_default :: "library \<Rightarrow> extension" where
  "san_default lib =
     SubjectAlternativeName (default_critical lib SubjectAlternativeName_key) []"

definition aliased :: "issue_state \<Rightarrow> bool" where
  "aliased s \<longleftrightarrow>
     (\<forall>k orig. extensions_dict s k = Some orig \<longrightarrow> cert_extensions s k = Some orig)"

definition unchanged_except :: "ext_key set \<Rightarrow> issue_state \<Rightarrow> issue_state \<Rightarrow> bool" where
  "unchanged_except K s s' \<longleftrightarrow>
     extensions_dict s' = extensions_dict s
     \<and> cert_subject s' = cert_subject s
     \<and> (aliased s \<longrightarrow> aliased s')
     \<and> (\<forall>k. k \<notin> K \<longrightarrow> extension_set s' k = extension_set s k)"

definition create_cert ::
  "library \<Rightarrow> profile \<Rightarrow> certificate_authority \<Rightarrow> create_cert_args
     \<Rightarrow> profile_error + x509_certificate" where
  "create_cert lib p a args =
     and_then (prepare lib p a args)
       (\<lambda>(issuer_nm, alg, s).
          if names_missing args s then Inl NoIdentityError
          else if \<not> pre_issue_cert lib (cert_subject s) (extension_set s) then Inl SignalError
          else
            (case private_key lib a (password args) of
               None \<Rightarrow> Inl PrivateKeyError
             | Some signing \<Rightarrow>
                 Inr \<lparr>public_key = csr args,
                      issuer = issuer_nm,
                      subject_name = cert_subject s,
                      x509_extensions =
                        dict_setdefault (extension_set s) SubjectKeyIdentifier_key
                          (SubjectKeyIdentifier False (key_identifier lib (csr args))),
                      not_after_delta = or_default (expires_arg args) (expires p),
                      signature_algorithm = alg,
                      signed_with = signing\<rparr>))"

text \<open>
  The final subject and extension set that the steps before the check arrive at, when
  none of them raises.
\<close>

definition resolved ::
  "library \<Rightarrow> profile \<Rightarrow> certificate_authority \<Rightarrow> create_cert_args
     \<Rightarrow> (subject \<times> (ext_key \<rightharpoonup> extension)) option" where
  "resolved lib p a args =
     (case prepare lib p a args of
        Inl e \<Rightarrow> None
      | Inr (issuer_nm, alg, s) \<Rightarrow> Some (cert_subject s, extension_set s))"

text \<open>The extensions a call starts from: the profile's, replaced by the caller's key by key.\<close>

definition given_extensions :: "profile \<Rightarrow> create_cert_args \<Rightarrow> (ext_key \<rightharpoonup> extension)" where
  "given_extensions p args = extensions p ++ caller_dict (extensions_arg args)"

definition given_names :: "(ext_key \<rightharpoonup> extension) \<Rightarrow> ext_key \<Rightarrow> general_name list" where
  "given_names m k = (case m k of None \<Rightarrow> [] | Some e \<Rightarrow> names e)"

definition subject_alternative_names :: "(ext_key \<rightharpoonup> extension) \<Rightarrow> general_name list" where
  "subject_alternative_names m = given_names m SubjectAlternativeName_key"

fun distribution_points :: "extension \<Rightarrow> distribution_point list" where
  "distribution_points (CRLDistributionPoints c v) = v"
| "distribution_points e = []"

definition given_points :: "(ext_key \<rightharpoonup> extension) \<Rightarrow> distribution_point list" where
  "given_points m =
     (case m CRLDistributionPoints_key of None \<Rightarrow> [] | Some e \<Rightarrow> distribution_points e)"

text \<open>
  The full names of the CRLDistributionPoints extension of the certificate that a call
  issues, in order, or \<open>None\<close> when no certificate is issued or it has no such
  extension.
\<close>

definition full_names :: "extension \<Rightarrow> string list" where
  "full_names e = concat (map full_name (distribution_points e))"

definition issued_crl_full_names ::
  "library \<Rightarrow> profile \<Rightarrow> certificate_authority \<Rightarrow> create_cert_args \<Rightarrow> string list option" where
  "issued_crl_full_names lib p a args =
     (case create_cert lib p a args of
        Inl e \<Rightarrow> None
      | Inr c \<Rightarrow> map_option full_names (x509_extensions c CRLDistributionPoints_key))"

subsection \<open>A test profile\<close>

definition test_parse_general_name :: "string \<Rightarrow> parse_error + general_name" where
  "test_parse_general_name x =
     (if x = ''xn--.example.com'' then Inl IDNAError
      else if take 7 x = ''http://'' then Inr (UniformResourceIdentifier x)
      else Inr (DNSName x))"

definition test_constructor :: "ext_key \<Rightarrow> raw option \<Rightarrow> extension option" where
  "test_constructor k arg =
     (case (k, arg) of
        (BasicConstraints_key, None) \<Rightarrow> Some (BasicConstraints True False None)
      | (BasicConstraints_key, Some (RawStr v)) \<Rightarrow> Some (BasicConstraints True True (Some 0))
      | (BasicConstraints_key, Some lit) \<Rightarrow> Some (BasicConstraints False False None)
      | (KeyUsage_key, Some (RawStr v)) \<Rightarrow> Some (KeyUsage True [v])
      | (OCSPNoCheck_key, None) \<Rightarrow> Some (OCSPNoCheck False)
      | other \<Rightarrow> None)"

definition test_library :: library where
  "test_library =
     \<lparr>parse_general_name = test_parse_general_name,
      shlex_split = (\<lambda>x. [x]),
      parse_hash_algorithm =
        (\<lambda>x. case x of None \<Rightarrow> Some SHA512
                 | Some n \<Rightarrow> if n = ''sha256'' then Some SHA256 else None),
      default_critical = (\<lambda>k. False),
      key_to_extension = test_constructor,
      CA_DEFAULT_SUBJECT = Map.empty,
      CA_DEFAULT_EXPIRES = 730,
      key_identifier = (\<lambda>k. ''11:22''),
      private_key = (\<lambda>a pw. if pw = Some ''secret'' then Some ''ca-key'' else None),
      pre_issue_cert = (\<lambda>sub exts. True)\<rparr>"

definition webserver :: profile where
  "webserver =
     \<lparr>name = ''webserver'', subject = [''C'' \<mapsto> ''AT''], algorithm = SHA512,
      extensions = [BasicConstraints_key \<mapsto> BasicConstraints True False None,
                    KeyUsage_key \<mapsto> KeyUsage True [''digitalSignature'']],
      cn_in_san = True, expires = 730, issuer_name = None,
      add_crl_url = True, add_issuer_url = True, add_ocsp_url = True,
      add_issuer_alternative_name = True, description = []\<rparr>"

definition test_args :: create_cert_args where
  "test_args =
     \<lparr>csr = ''public-key'', subject_arg = Some [''CN'' \<mapsto> ''example.com''],
      expires_arg = None, algorithm_arg = None, extensions_arg = None, cn_in_san_arg = None,
      add_crl_url_arg = None, add_ocsp_url_arg = None, add_issuer_url_arg = None,
      add_issuer_alternative_name_arg = None, password = Some ''secret''\<rparr>"

text \<open>
  A call with no subject and no extensions, a call that passes a
  CRLDistributionPoints extension of its own, a profile whose subject has a Common
  Name, and a profile that has a SubjectAlternativeName.
\<close>

definition bare_args :: create_cert_args where
  "bare_args = test_args\<lparr>subject_arg := None\<rparr>"

definition args_with_point :: create_cert_args where
  "args_with_point =
     test_args\<lparr>extensions_arg :=
       Some [CRLDistributionPoints False [DistributionPoint [''http://old.example.net'']]]\<rparr>"

definition named_profile :: profile where
  "named_profile = webserver\<lparr>subject := [''CN'' \<mapsto> ''www.example.com'']\<rparr>"

definition san_profile :: profile where
  "san_profile =
     webserver\<lparr>extensions :=
       [BasicConstraints_key \<mapsto> BasicConstraints True False None,
        SubjectAlternativeName_key \<mapsto> SubjectAlternativeName False [DNSName ''www.example.com'']]\<rparr>"

definition webserver_config :: profile_config where
  "webserver_config =
     \<lparr>config_subject = Some [''C'' \<mapsto> ''AT''], config_algorithm = None,
      config_extensions = Some [(KeyUsage_key, Literal (RawStr ''digitalSignature''))],
      config_cn_in_san = True, config_expires = None, config_issuer_name = None,
      config_description = [], config_add_crl_url = True, config_add_ocsp_url = True,
      config_add_issuer_url = True, config_add_issuer_alternative_name = True,
      kwargs = [''ocsp_no_check'' \<mapsto> RawBool True]\<rparr>"

section \<open>The CRL generator\<close>

text \<open>
  Modelled from the spec: \<open>get_crl\<close> and \<open>cache_crls\<close> are methods of
  \<open>CertificateAuthority\<close> in models.py, which is not among the sources; the tests
  \<open>test_counter\<close> and \<open>test_cache_crls\<close> call them. The definitions follow section
  4.3 of the specification. The store holds the two tables, the persisted CRL
  counters, one per CA, scope and counter key, and the shared cache, keyed by serial,
  digest, encoding and scope. An encoded CRL is the CRL together with its encoding.
  The spec does not say what a failed generation leaves behind: here it leaves the
  store as it was.
\<close>

datatype encoding = DER | PEM

datatype crl_error = InvalidScopeError | KeyLoadError

record revoked_entry =
  entry_serial :: string
  entry_time :: "timestamp option"
  entry_reason :: "reason_flags option"

record issuing_distribution_point =
  idp_full_name :: "string list"
  idp_scope :: "string option"

record crl =
  crl_issuer_serial :: string
  crl_number :: nat
  crl_entries :: "revoked_entry list"
  crl_idp :: "issuing_distribution_point option"
  crl_this_update :: timestamp
  crl_next_update :: timestamp
  crl_algorithm :: hash_algorithm
  crl_signing_key :: string

type_synonym counter_id = "string \<times> string option \<times> string option"
type_synonym cache_key = "string \<times> hash_algorithm \<times> encoding \<times> string option"

record cache_entry =
  cached :: "encoding \<times> crl"
  ttl :: int

record revocation_store =
  authorities :: "certificate_authority list"
  issued :: "certificate list"
  crl_numbers :: "counter_id \<rightharpoonup> nat"
  crl_cache :: "cache_key \<rightharpoonup> cache_entry"

definition valid_scope :: "string option \<Rightarrow> bool" where
  "valid_scope sc =
     (case sc of None \<Rightarrow> True | Some t \<Rightarrow> t = ''ca'' \<or> t = ''user'' \<or> t = ''attribute'')"

definition entry_of :: "'a x509_cert_mixin_scheme \<Rightarrow> revoked_entry" where
  "entry_of c =
     \<lparr>entry_serial = serial c, entry_time = revoked_date c, entry_reason = revoked_reason c\<rparr>"

definition revoked_cas :: "revocation_store \<Rightarrow> certificate_authority \<Rightarrow> revoked_entry list" where
  "revoked_cas st a =
     map entry_of (filter (\<lambda>c. revoked c \<and> parent c = Some (serial a)) (authorities st))"

definition revoked_certs :: "revocation_store \<Rightarrow> certificate_authority \<Rightarrow> revoked_entry list" where
  "revoked_certs st a = map entry_of (filter (\<lambda>c. revoked c \<and> ca c = serial a) (issued st))"

definition scoped_entries ::
  "revocation_store \<Rightarrow> certificate_authority \<Rightarrow> string option \<Rightarrow> revoked_entry list" where
  "scoped_entries st a sc =
     (if sc = Some ''ca'' then revoked_cas st a
      else if sc = Some ''user'' then revoked_certs st a
      else if sc = Some ''attribute'' then []
      else revoked_certs st a @ revoked_cas st a)"

fun split_on :: "char \<Rightarrow> string \<Rightarrow> string \<Rightarrow> string list" where
  "split_on sep w [] = [w]"
| "split_on sep w (c # cs) =
     (if c = sep then w # split_on sep [] cs else split_on sep (w @ [c]) cs)"

definition distribution_point_of ::
  "certificate_authority \<Rightarrow> string option \<Rightarrow> string list option
     \<Rightarrow> issuing_distribution_point option" where
  "distribution_point_of a sc full_name_override =
     (case full_name_override of
        Some urls \<Rightarrow> Some \<lparr>idp_full_name = urls, idp_scope = sc\<rparr>
      | None \<Rightarrow>
          if crl_url a = [] then None
          else Some \<lparr>idp_full_name = split_on (CHR 0x0A) [] (crl_url a), idp_scope = sc\<rparr>)"

definition counter_value :: "revocation_store \<Rightarrow> counter_id \<Rightarrow> nat" where
  "counter_value st cid = (case crl_numbers st cid of None \<Rightarrow> 0 | Some n \<Rightarrow> n)"

definition generate ::
  "(certificate_authority \<Rightarrow> string option \<Rightarrow> string option) \<Rightarrow> timestamp
     \<Rightarrow> revocation_store \<Rightarrow> certificate_authority \<Rightarrow> string option \<Rightarrow> string list option
     \<Rightarrow> string option \<Rightarrow> hash_algorithm \<Rightarrow> int \<Rightarrow> string option
     \<Rightarrow> crl_error + (crl \<times> revocation_store)" where
  "generate load_key now st a sc full_name_override counter_key alg expiry pw =
     (if \<not> valid_scope sc then Inl InvalidScopeError
      else
        (case load_key a pw of
           None \<Rightarrow> Inl KeyLoadError
         | Some signing \<Rightarrow>
             Inr (\<lparr>crl_issuer_serial = serial a,
                   crl_number = counter_value st (serial a, sc, counter_key),
                   crl_entries = scoped_entries st a sc,
                   crl_idp = distribution_point_of a sc full_name_override,
                   crl_this_update = now,
                   crl_next_update = now + expiry,
                   crl_algorithm = alg,
                   crl_signing_key = signing\<rparr>,
                  st\<lparr>crl_numbers :=
                       (crl_numbers st)((serial a, sc, counter_key)
                          \<mapsto> counter_value st (serial a, sc, counter_key) + 1)\<rparr>)))"

text \<open>
  The CRL-distribution profiles of the configuration: scope, encodings, digest and
  expiry, a password, and per CA (by serial) an override that can skip the CA or
  replace the encodings and the password.
\<close>

record crl_override =
  skip :: bool
  override_password :: "string option"
  override_encodings :: "encoding list option"

record crl_profile =
  profile_scope :: "string option"
  profile_encodings :: "encoding list"
  profile_algorithm :: hash_algorithm
  profile_expires :: int
  profile_password :: "string option"
  overrides :: "string \<rightharpoonup> crl_override"

definition skipped :: "crl_profile \<Rightarrow> certificate_authority \<Rightarrow> bool" where
  "skipped prof a = (case overrides prof (serial a) of None \<Rightarrow> False | Some ov \<Rightarrow> skip ov)"

definition effective_password :: "crl_profile \<Rightarrow> certificate_authority \<Rightarrow> string option" where
  "effective_password prof a =
     (case overrides prof (serial a) of
        None \<Rightarrow> profile_password prof
      | Some ov \<Rightarrow>
          (case override_password ov of None \<Rightarrow> profile_password prof | Some w \<Rightarrow> Some w))"

definition effective_encodings :: "crl_profile \<Rightarrow> certificate_authority \<Rightarrow> encoding list" where
  "effective_encodings prof a =
     (case overrides prof (serial a) of
        None \<Rightarrow> profile_encodings prof
      | Some ov \<Rightarrow> or_default (override_encodings ov) (profile_encodings prof))"

definition store_encodings ::
  "certificate_authority \<Rightarrow> crl_profile \<Rightarrow> crl \<Rightarrow> encoding list
     \<Rightarrow> (cache_key \<rightharpoonup> cache_entry) \<Rightarrow> (cache_key \<rightharpoonup> cache_entry)" where
  "store_encodings a prof c encs m =
     fold (\<lambda>enc m'. m'((serial a, profile_algorithm prof, enc, profile_scope prof)
                        \<mapsto> \<lparr>cached = (enc, c), ttl = profile_expires prof\<rparr>))
       encs m"

definition cache_crl_profile ::
  "(certificate_authority \<Rightarrow> string option \<Rightarrow> string option) \<Rightarrow> timestamp
     \<Rightarrow> certificate_authority \<Rightarrow> crl_profile \<Rightarrow> revocation_store \<Rightarrow> revocation_store" where
  "cache_crl_profile load_key now a prof st =
     (if skipped prof a then st
      else
        (case generate load_key now st a (profile_scope prof) None None
                (profile_algorithm prof) (profile_expires prof) (effective_password prof a) of
           Inl e \<Rightarrow> st
         | Inr (c, st') \<Rightarrow>
             st'\<lparr>crl_cache :=
                   store_encodings a prof c (effective_encodings prof a) (crl_cache st')\<rparr>))"

definition cache_crls ::
  "(certificate_authority \<Rightarrow> string option \<Rightarrow> string option) \<Rightarrow> timestamp
     \<Rightarrow> certificate_authority \<Rightarrow> crl_profile list \<Rightarrow> revocation_store \<Rightarrow> revocation_store" where
  "cache_crls load_key now a profiles st = fold (cache_crl_profile load_key now a) profiles st"

text \<open>
  A generation fails for a profile and a CA when the scope is invalid or the key does
  not load under the password in effect.
\<close>

definition generation_fails ::
  "(certificate_authority \<Rightarrow> string option \<Rightarrow> string option) \<Rightarrow> certificate_authority
     \<Rightarrow> crl_profile \<Rightarrow> bool" where
  "generation_fails load_key a prof \<longleftrightarrow>
     \<not> valid_scope (profile_scope prof) \<or> load_key a (effective_password prof a) = None"

subsection \<open>A test store\<close>

definition test_store :: revocation_store where
  "test_store =
     \<lparr>authorities = [root_ca, child_ca], issued = [good_cert, revoked_cert],
      crl_numbers = Map.empty, crl_cache = Map.empty\<rparr>"

definition test_load_key :: "certificate_authority \<Rightarrow> string option \<Rightarrow> string option" where
  "test_load_key a pw = (if pw = Some ''secret'' then Some (''key-'' @ serial a) else None)"

definition user_profile :: crl_profile where
  "user_profile =
     \<lparr>profile_scope = Some ''user'', profile_encodings = [DER, PEM], profile_algorithm = SHA512,
      profile_expires = 86400, profile_password = Some ''secret'', overrides = Map.empty\<rparr>"

definition ca_profile :: crl_profile where
  "ca_profile =
     \<lparr>profile_scope = Some ''ca'', profile_encodings = [DER, PEM], profile_algorithm = SHA512,
      profile_expires = 86400, profile_password = Some ''secret'',
      overrides = [''5A'' \<mapsto> \<lparr>skip = False, override_password = Some ''wrong'',
                              override_encodings = None\<rparr>]\<rparr>"

text \<open>
  Two profiles of the user scope that are unusable for the root CA: one whose override
  gives a wrong password, one whose override skips the CA.
\<close>

definition wrong_password_profile :: crl_profile where
  "wrong_password_profile =
     user_profile\<lparr>overrides :=
       [''5A'' \<mapsto> \<lparr>skip = False, override_password = Some ''wrong'',
                    override_encodings = None\<rparr>]\<rparr>"

definition skipping_profile :: crl_profile where
  "skipping_profile =
     user_profile\<lparr>overrides :=
       [''5A'' \<mapsto> \<lparr>skip = True, override_password = Some ''wrong'',
                    override_encodings = None\<rparr>]\<rparr>"

section \<open>Properties of the OCSP responder\<close>

lemma unknown_critical_iff:
  "unknown_critical exts = list_ex (\<lambda>ext. ext_critical ext \<and> \<not> is_nonce ext) exts"
  by (induction exts) (auto split: ocsp_extension_value.splits)

lemmas test_db_defs =
  test_env_def test_view_def test_decoder_def test_hex_def root_ca_def child_ca_def
  good_cert_def revoked_cert_def

lemmas responder_defs =
  post_def get_def process_ocsp_request_def get_ca_def get_by_serial_or_cn_def get_cert_def
  build_response_def get_responder_key_def get_responder_cert_def add_response_def
  get_revocation_time_def get_revocation_reason_def nonce_extensions_def
  malformed_request_def fail_def http_response_def

lemma get_never_raises: "\<exists>r. get env view data = Inr r"
  by (simp add: get_def split: sum.splits option.splits)



text \<open>
  Claim C7. Take two requests that decode and hold no unknown critical extension,
  the first to a responder whose CA is unknown, the second for a serial that the CA
  of the responder has no certificate of. Both are answered with the internal-error
  response, and the two answers are equal.
\<close>

theorem lookup_miss_internal_error:
  assumes "load_der_ocsp_request env1 data1 = Some req1"
      and "\<not> has_unknown_critical req1"
      and "unknown_ca env1 view1"
      and "load_der_ocsp_request env2 data2 = Some req2"
      and "\<not> has_unknown_critical req2"
      and "get_ca env2 view2 = Inr a"
      and "unknown_cert env2 view2 a (int_to_hex env2 (serial_number req2))"
  shows "post env1 view1 data1 = Inr (fail INTERNAL_ERROR)
       \<and> post env2 view2 data2 = Inr (fail INTERNAL_ERROR)
       \<and> post env1 view1 data1 = post env2 view2 data2
       \<and> content (fail INTERNAL_ERROR) = Unsuccessful INTERNAL_ERROR"
  using assms
  by (simp add: post_def process_ocsp_request_def has_unknown_critical_def unknown_critical_iff
      unknown_ca_def unknown_cert_def get_ca_def get_by_serial_or_cn_def get_cert_def
      fail_def http_response_def split: if_splits)

theorem lookup_miss_internal_error_witness:
  "post test_env (test_view\<lparr>view_ca := ''77''\<rparr>) ''good'' = Inr (fail INTERNAL_ERROR)
   \<and> post test_env test_view ''unknown'' = Inr (fail INTERNAL_ERROR)
   \<and> post test_env (test_view\<lparr>view_ca := ''77''\<rparr>) ''good'' = post test_env test_view ''unknown''"
proof -
  have d1: "load_der_ocsp_request test_env ''good'' = Some (the (test_decoder ''good''))"
    by (simp add: test_env_def test_decoder_def)
  have c1: "\<not> has_unknown_critical (the (test_decoder ''good''))"
    by (simp add: has_unknown_critical_def test_decoder_def)
  have m1: "unknown_ca test_env (test_view\<lparr>view_ca := ''77''\<rparr>)"
    by (simp add: unknown_ca_def test_db_defs)
  have d2: "load_der_ocsp_request test_env ''unknown'' = Some (the (test_decoder ''unknown''))"
    by (simp add: test_env_def test_decoder_def)
  have c2: "\<not> has_unknown_critical (the (test_decoder ''unknown''))"
    by (simp add: has_unknown_critical_def test_decoder_def)
  have a2: "get_ca test_env test_view = Inr root_ca"
    by (simp add: get_ca_def get_by_serial_or_cn_def test_db_defs)
  have m2: "unknown_cert test_env test_view root_ca
              (int_to_hex test_env (serial_number (the (test_decoder ''unknown''))))"
    by (simp add: unknown_cert_def test_db_defs)
  show ?thesis
    using lookup_miss_internal_error [OF d1 c1 m1 d2 c2 a2 m2] by simp
qed



text \<open>
  Claim C8. The claim fails for POST. A POST whose body decodes and whose CA and
  certificate are found, sent to a responder whose key file does not exist, ends in
  the \<open>IOError\<close> of the file read: \<open>post\<close> has no handler, so no OCSP response is
  returned. The same request by GET is answered with the internal-error response.
\<close>

theorem post_without_responder_key:
  "post test_env (test_view\<lparr>responder_key := ''/missing.pem''\<rparr>) ''good'' = Inl IOError
   \<and> get test_env (test_view\<lparr>responder_key := ''/missing.pem''\<rparr>) ''good''
       = Inr (fail INTERNAL_ERROR)"
  by (simp add: responder_defs test_db_defs)

section \<open>Properties of the profile engine\<close>

subsection \<open>Results, dictionaries and the object store\<close>

lemma and_then_simps [simp]:
  "and_then (Inl e) f = Inl e"
  "and_then (Inr x) f = f x"
  by (simp_all add: and_then_def)

lemma and_then_Inr:
  "and_then r f = Inr y \<longleftrightarrow> (\<exists>x. r = Inr x \<and> f x = Inr y)"
  by (cases r) simp_all

lemma caller_set_aliased:
  "aliased s \<Longrightarrow> caller_set s k = (if extensions_dict s k = None then None else extension_set s k)"
  by (auto simp: aliased_def caller_set_def extension_set_def lookup_def split: option.splits)

lemma extension_set_setdefault:
  "extension_set (setdefault s k v) k' =
     (if k' = k \<and> cert_extensions s k = None then Some v else extension_set s k')"
  by (auto simp: extension_set_def setdefault_def lookup_def split: option.splits)

lemma setdefault_frame:
  "extensions_dict (setdefault s k v) = extensions_dict s"
  "cert_subject (setdefault s k v) = cert_subject s"
  by (auto simp: setdefault_def split: option.splits)

lemma aliased_setdefault: "aliased s \<Longrightarrow> aliased (setdefault s k v)"
  by (auto simp: aliased_def setdefault_def split: option.splits)

lemma mutate_Inr:
  assumes "mutate s k f = Inr s'"
  shows "\<exists>e e'. extension_set s k = Some e \<and> f e = Inr e'
           \<and> extension_set s' = (extension_set s)(k \<mapsto> e')
           \<and> cert_extensions s' = cert_extensions s
           \<and> extensions_dict s' = extensions_dict s
           \<and> cert_subject s' = cert_subject s"
  using assms
  by (auto simp: mutate_def extension_set_def lookup_def and_then_Inr fun_eq_iff
      split: option.splits)

lemma aliased_mutate: "mutate s k f = Inr s' \<Longrightarrow> aliased s \<Longrightarrow> aliased s'"
  by (auto simp: aliased_def mutate_def and_then_Inr split: option.splits)

lemma unchanged_except_refl: "unchanged_except K s s"
  by (simp add: unchanged_except_def)

lemma unchanged_except_trans:
  "unchanged_except K s s1 \<Longrightarrow> unchanged_except K s1 s2 \<Longrightarrow> unchanged_except K s s2"
  by (simp add: unchanged_except_def)

lemma unchanged_except_mono:
  "unchanged_except K s s' \<Longrightarrow> K \<subseteq> K' \<Longrightarrow> unchanged_except K' s s'"
  by (auto simp: unchanged_except_def)

lemma unchanged_except_setdefault: "unchanged_except {k} s (setdefault s k v)"
  by (simp add: unchanged_except_def setdefault_frame aliased_setdefault extension_set_setdefault)

lemma extension_set_setdefault_same:
  assumes "extension_set (setdefault s k v) k = Some e"
  shows "extension_set s k = None \<and> e = v \<or> extension_set s k = Some e"
proof (cases "cert_extensions s k")
  case None
  then have "extension_set s k = None" by (simp add: extension_set_def lookup_def)
  with None assms show ?thesis by (simp add: extension_set_setdefault)
next
  case (Some orig)
  with assms show ?thesis by (simp add: extension_set_setdefault)
qed

lemma mutate_setdefault:
  assumes "mutate (setdefault s k v) k f = Inr s'"
  shows "\<exists>e e'. f e = Inr e'
           \<and> (extension_set s k = None \<and> e = v \<or> extension_set s k = Some e)
           \<and> extension_set s' k = Some e'
           \<and> unchanged_except {k} s s'"
proof -
  from mutate_Inr [OF assms] obtain e e' where
    e: "extension_set (setdefault s k v) k = Some e" and f: "f e = Inr e'"
    and s': "extension_set s' = (extension_set (setdefault s k v))(k \<mapsto> e')"
    and d: "extensions_dict s' = extensions_dict (setdefault s k v)"
    and c: "cert_subject s' = cert_subject (setdefault s k v)"
    by blast
  have before: "extension_set s k = None \<and> e = v \<or> extension_set s k = Some e"
    using e by (rule extension_set_setdefault_same)
  have "unchanged_except {k} s s'"
    using s' d c aliased_mutate [OF assms] aliased_setdefault [of s k v]
    by (auto simp: unchanged_except_def setdefault_frame extension_set_setdefault)
  with f before s' show ?thesis by auto
qed

lemma extension_set_initial:
  "extension_set (initial_state p exts) = extensions p ++ caller_dict exts"
  by (auto simp: extension_set_def initial_state_def lookup_def Let_def fun_eq_iff map_add_def
      split: option.splits)

lemma extensions_dict_initial:
  "extensions_dict (initial_state p exts) k = None \<longleftrightarrow> caller_dict exts k = None"
  by (auto simp: initial_state_def Let_def split: option.splits)

lemma aliased_initial: "aliased (initial_state p exts)"
  by (auto simp: aliased_def initial_state_def Let_def map_add_def split: option.splits)

lemma cert_subject_initial: "cert_subject (initial_state p exts) = subject p"
  by (simp add: initial_state_def Let_def)

lemma append_distribution_point_Inr:
  "append_distribution_point dp e = Inr e' \<Longrightarrow>
     \<exists>c v. e = CRLDistributionPoints c v \<and> e' = CRLDistributionPoints c (v @ [dp])"
  by (cases e) simp_all

lemma extend_names_Inr:
  "extend_names gs e = Inr e' \<Longrightarrow> names e' = names e @ gs"
  by (cases e) auto

lemma update_crl_url_frame:
  "update_crl_url lib a flag s = Inr s' \<Longrightarrow> unchanged_except {CRLDistributionPoints_key} s s'"
  using mutate_setdefault
  by (fastforce simp: update_crl_url_def unchanged_except_refl split: if_splits)

lemma update_crl_url_appends:
  assumes "update_crl_url lib a True s = Inr s'" and "crl_url a \<noteq> []"
  shows "\<exists>crit prev.
           extension_set s' CRLDistributionPoints_key
             = Some (CRLDistributionPoints crit
                       (prev @ [DistributionPoint (map py_strip (py_split (crl_url a)))]))
           \<and> (extension_set s CRLDistributionPoints_key = None \<and> prev = []
              \<or> extension_set s CRLDistributionPoints_key = Some (CRLDistributionPoints crit prev))"
proof -
  from assms have "mutate
          (setdefault s CRLDistributionPoints_key
             (CRLDistributionPoints (default_critical lib CRLDistributionPoints_key) []))
          CRLDistributionPoints_key
          (append_distribution_point (DistributionPoint (map py_strip (py_split (crl_url a)))))
        = Inr s'"
    by (simp add: update_crl_url_def)
  from mutate_setdefault [OF this] obtain e e' where
    f: "append_distribution_point (DistributionPoint (map py_strip (py_split (crl_url a)))) e = Inr e'"
    and b: "extension_set s CRLDistributionPoints_key = None
              \<and> e = CRLDistributionPoints (default_critical lib CRLDistributionPoints_key) []
            \<or> extension_set s CRLDistributionPoints_key = Some e"
    and a: "extension_set s' CRLDistributionPoints_key = Some e'"
    by blast
  from append_distribution_point_Inr [OF f] obtain c v where
    "e = CRLDistributionPoints c v"
    "e' = CRLDistributionPoints c (v @ [DistributionPoint (map py_strip (py_split (crl_url a)))])"
    by blast
  with a b show ?thesis by auto
qed

lemma update_ocsp_url_frame:
  "update_ocsp_url lib a flag s = Inr s' \<Longrightarrow> unchanged_except {AuthorityInformationAccess_key} s s'"
  using mutate_setdefault
  by (fastforce simp: update_ocsp_url_def unchanged_except_refl and_then_Inr split: if_splits)

lemma update_issuer_url_frame:
  "update_issuer_url lib a flag s = Inr s' \<Longrightarrow> unchanged_except {AuthorityInformationAccess_key} s s'"
  using mutate_setdefault
  by (fastforce simp: update_issuer_url_def unchanged_except_refl and_then_Inr split: if_splits)

lemma update_issuer_alt_name_frame:
  "update_issuer_alt_name lib a flag s = Inr s' \<Longrightarrow> unchanged_except {IssuerAlternativeName_key} s s'"
  using mutate_setdefault
  by (fastforce simp: update_issuer_alt_name_def unchanged_except_refl and_then_Inr split: if_splits)


lemma dropWhile_none: "\<forall>x \<in> set xs. \<not> P x \<Longrightarrow> dropWhile P xs = xs"
  by (cases xs) auto

lemma py_strip_word:
  assumes "\<forall>c \<in> set t. \<not> is_space c"
  shows "py_strip t = t"
proof -
  have 1: "dropWhile is_space t = t" using assms by (rule dropWhile_none)
  have "\<forall>c \<in> set (rev t). \<not> is_space c" using assms by simp
  then have 2: "dropWhile is_space (rev t) = rev t" by (rule dropWhile_none)
  show ?thesis unfolding py_strip_def 1 2 by simp
qed

lemma split_words_no_space:
  "t \<in> set (split_words w cs) \<Longrightarrow> \<forall>c \<in> set w. \<not> is_space c \<Longrightarrow> \<forall>c \<in> set t. \<not> is_space c"
proof (induction cs arbitrary: w)
  case Nil
  then show ?case by (simp split: if_splits)
next
  case (Cons c cs)
  show ?case
  proof (cases "is_space c")
    case True
    with Cons.prems have "t = w \<or> t \<in> set (split_words [] cs)"
      by (simp split: if_splits)
    then show ?thesis
    proof
      assume "t = w" with Cons.prems show ?thesis by simp
    next
      assume "t \<in> set (split_words [] cs)"
      from Cons.IH [OF this] show ?thesis by simp
    qed
  next
    case False
    with Cons.prems have "t \<in> set (split_words (w @ [c]) cs)" by simp
    moreover have "\<forall>x \<in> set (w @ [c]). \<not> is_space x" using Cons.prems False by simp
    ultimately show ?thesis by (rule Cons.IH)
  qed
qed

lemma strip_split: "map py_strip (py_split s) = py_split s"
proof -
  have "\<And>t. t \<in> set (py_split s) \<Longrightarrow> py_strip t = t"
  proof -
    fix t assume "t \<in> set (py_split s)"
    then have "t \<in> set (split_words [] s)" by (simp add: py_split_def)
    then have "\<forall>c \<in> set t. \<not> is_space c" by (rule split_words_no_space) simp
    then show "py_strip t = t" by (rule py_strip_word)
  qed
  then show ?thesis by (simp add: map_idI)
qed

lemma py_split_Nil: "py_split [] = []"
  by (simp add: py_split_def)


lemma state_subject_update [simp]:
  "extension_set (s\<lparr>cert_subject := x\<rparr>) = extension_set s"
  "caller_set (s\<lparr>cert_subject := x\<rparr>) = caller_set s"
  "aliased (s\<lparr>cert_subject := x\<rparr>) = aliased s"
  by (simp_all add: extension_set_def caller_set_def aliased_def)

lemma update_from_ca_Inr:
  assumes "update_from_ca lib p a crl ocsp isu ian s = Inr (iss, s')"
  shows "\<exists>s1. update_crl_url lib a crl
                 (setdefault s AuthorityKeyIdentifier_key (get_authority_key_identifier_extension a))
               = Inr s1
           \<and> unchanged_except {AuthorityInformationAccess_key, IssuerAlternativeName_key} s1 s'
           \<and> unchanged_except
                {AuthorityKeyIdentifier_key, CRLDistributionPoints_key,
                 AuthorityInformationAccess_key, IssuerAlternativeName_key} s s'
           \<and> iss = (case issuer_name p of Some n \<Rightarrow> n | None \<Rightarrow> x509_subject a)"
proof -
  from assms obtain s1 s2 s3 where
    1: "update_crl_url lib a crl
          (setdefault s AuthorityKeyIdentifier_key (get_authority_key_identifier_extension a)) = Inr s1"
    and 2: "update_ocsp_url lib a ocsp s1 = Inr s2"
    and 3: "update_issuer_url lib a isu s2 = Inr s3"
    and 4: "update_issuer_alt_name lib a ian s3 = Inr s'"
    and 5: "iss = (case issuer_name p of Some n \<Rightarrow> n | None \<Rightarrow> x509_subject a)"
    by (auto simp: update_from_ca_def and_then_Inr)
  let ?K = "{AuthorityInformationAccess_key, IssuerAlternativeName_key}"
  let ?L = "{AuthorityKeyIdentifier_key, CRLDistributionPoints_key,
             AuthorityInformationAccess_key, IssuerAlternativeName_key}"
  have a: "unchanged_except ?K s1 s2"
    using update_ocsp_url_frame [OF 2] by (rule unchanged_except_mono) simp
  have b: "unchanged_except ?K s2 s3"
    using update_issuer_url_frame [OF 3] by (rule unchanged_except_mono) simp
  have c: "unchanged_except ?K s3 s'"
    using update_issuer_alt_name_frame [OF 4] by (rule unchanged_except_mono) simp
  have k: "unchanged_except ?K s1 s'"
    using a b c by (blast intro: unchanged_except_trans)
  have d: "unchanged_except ?L s
             (setdefault s AuthorityKeyIdentifier_key (get_authority_key_identifier_extension a))"
    using unchanged_except_setdefault by (rule unchanged_except_mono) simp
  have e: "unchanged_except ?L
             (setdefault s AuthorityKeyIdentifier_key (get_authority_key_identifier_extension a)) s1"
    using update_crl_url_frame [OF 1] by (rule unchanged_except_mono) simp
  have f: "unchanged_except ?L s1 s'"
    using k by (rule unchanged_except_mono) simp
  have "unchanged_except ?L s s'"
    using d e f by (blast intro: unchanged_except_trans)
  with 1 k 5 show ?thesis by blast
qed

lemma update_san_from_cn_cases:
  assumes "update_san_from_cn lib in_san s = Inr s'"
  obtains
    (present) cn g san where
      "has_cn (cert_subject s)" "in_san" "cert_subject s ''CN'' = Some cn"
      "parse_general_name lib cn = Inr g"
      "extension_set (setdefault s SubjectAlternativeName_key (san_default lib))
         SubjectAlternativeName_key = Some san"
      "g \<in> set (names san)"
      "s' = setdefault s SubjectAlternativeName_key (san_default lib)"
  | (appended) cn g san where
      "has_cn (cert_subject s)" "in_san" "cert_subject s ''CN'' = Some cn"
      "parse_general_name lib cn = Inr g"
      "extension_set (setdefault s SubjectAlternativeName_key (san_default lib))
         SubjectAlternativeName_key = Some san"
      "g \<notin> set (names san)"
      "mutate (setdefault s SubjectAlternativeName_key (san_default lib))
         SubjectAlternativeName_key (extend_names [g]) = Inr s'"
  | (backfill) v where
      "\<not> has_cn (cert_subject s)" "s' = s\<lparr>cert_subject := (cert_subject s)(''CN'' \<mapsto> v)\<rparr>"
  | (same) "\<not> (has_cn (cert_subject s) \<and> in_san)" "s' = s"
proof (cases "has_cn (cert_subject s) \<and> in_san")
  case True
  let ?s1 = "setdefault s SubjectAlternativeName_key (san_default lib)"
  from True obtain cn where cn: "cert_subject s ''CN'' = Some cn"
    by (cases "cert_subject s ''CN''") (simp_all add: has_cn_def)
  from assms True cn obtain g where g: "parse_general_name lib cn = Inr g"
    by (cases "parse_general_name lib cn")
       (simp_all add: update_san_from_cn_def split: parse_error.splits)
  from assms True cn g have eq:
    "(case extension_set ?s1 SubjectAlternativeName_key of
        None \<Rightarrow> Inl KeyError
      | Some san \<Rightarrow>
          if g \<in> set (names san) then Inr ?s1
          else mutate ?s1 SubjectAlternativeName_key (extend_names [g])) = Inr s'"
    unfolding san_default_def by (simp add: update_san_from_cn_def Let_def)
  then obtain san where san: "extension_set ?s1 SubjectAlternativeName_key = Some san"
    by (cases "extension_set ?s1 SubjectAlternativeName_key") simp_all
  show ?thesis
  proof (cases "g \<in> set (names san)")
    case in_list: True
    with eq san have "s' = ?s1" by simp
    with True cn g san in_list show ?thesis by (intro present) simp_all
  next
    case not_in_list: False
    with eq san have "mutate ?s1 SubjectAlternativeName_key (extend_names [g]) = Inr s'" by simp
    with True cn g san not_in_list show ?thesis by (intro appended) simp_all
  qed
next
  case False
  show ?thesis
  proof (cases "\<not> has_cn (cert_subject s) \<and> cert_extensions s SubjectAlternativeName_key \<noteq> None")
    case fill: True
    with assms False have eq:
      "(case extension_set s SubjectAlternativeName_key of
          None \<Rightarrow> Inl KeyError
        | Some san \<Rightarrow>
            (case get_common_name san of
               None \<Rightarrow> Inr s
             | Some v \<Rightarrow> Inr (s\<lparr>cert_subject := (cert_subject s)(''CN'' \<mapsto> v)\<rparr>))) = Inr s'"
      by (simp add: update_san_from_cn_def)
    then obtain san where san: "extension_set s SubjectAlternativeName_key = Some san"
      by (cases "extension_set s SubjectAlternativeName_key") simp_all
    show ?thesis
    proof (cases "get_common_name san")
      case None
      with eq san have "s' = s" by simp
      with False show ?thesis by (intro same) simp_all
    next
      case (Some v)
      with eq san have "s' = s\<lparr>cert_subject := (cert_subject s)(''CN'' \<mapsto> v)\<rparr>" by simp
      with fill show ?thesis by (intro backfill) simp_all
    qed
  next
    case nofill: False
    with assms False have "s' = s"
      by (cases "has_cn (cert_subject s)") (simp_all add: update_san_from_cn_def)
    with False show ?thesis by (intro same) simp_all
  qed
qed


lemma prepare_Inr:
  assumes "prepare lib p a args = Inr (iss, alg, s)"
  obtains s0 s1 where
    "update_crl_url lib a (or_default (add_crl_url_arg args) (add_crl_url p))
       (setdefault (initial_state p (extensions_arg args)) AuthorityKeyIdentifier_key
          (get_authority_key_identifier_extension a)) = Inr s0"
    "unchanged_except {AuthorityInformationAccess_key, IssuerAlternativeName_key} s0 s1"
    "unchanged_except
       {AuthorityKeyIdentifier_key, CRLDistributionPoints_key,
        AuthorityInformationAccess_key, IssuerAlternativeName_key}
       (initial_state p (extensions_arg args)) s1"
    "update_san_from_cn lib (or_default (cn_in_san_arg args) (cn_in_san p))
       (s1\<lparr>cert_subject := cert_subject s1 ++ or_default (subject_arg args) Map.empty\<rparr>) = Inr s"
proof -
  from assms obtain s1 where
    u: "update_from_ca lib p a
          (or_default (add_crl_url_arg args) (add_crl_url p))
          (or_default (add_ocsp_url_arg args) (add_ocsp_url p))
          (or_default (add_issuer_url_arg args) (add_issuer_url p))
          (or_default (add_issuer_alternative_name_arg args) (add_issuer_alternative_name p))
          (initial_state p (extensions_arg args)) = Inr (iss, s1)"
    and n: "update_san_from_cn lib (or_default (cn_in_san_arg args) (cn_in_san p))
       (s1\<lparr>cert_subject := cert_subject s1 ++ or_default (subject_arg args) Map.empty\<rparr>) = Inr s"
    by (auto simp: prepare_def and_then_Inr split: prod.splits)
  from update_from_ca_Inr [OF u] n that show ?thesis by blast
qed

lemma create_cert_Inr:
  assumes "create_cert lib p a args = Inr c"
  obtains iss alg s where
    "prepare lib p a args = Inr (iss, alg, s)"
    "\<not> names_missing args s"
    "x509_extensions c =
       dict_setdefault (extension_set s) SubjectKeyIdentifier_key
         (SubjectKeyIdentifier False (key_identifier lib (csr args)))"
    "subject_name c = cert_subject s"
  using assms
  by (auto simp: create_cert_def and_then_Inr split: prod.splits if_splits option.splits)

lemma create_cert_no_identity:
  assumes "prepare lib p a args = Inr (iss, alg, s)"
  shows "create_cert lib p a args = Inl NoIdentityError \<longleftrightarrow> names_missing args s"
  using assms by (simp add: create_cert_def split: option.splits)

lemma dict_setdefault_other: "k' \<noteq> k \<Longrightarrow> dict_setdefault m k v k' = m k'"
  by (simp add: dict_setdefault_def split: option.splits)



lemma update_san_from_cn_frame:
  assumes "update_san_from_cn lib in_san s = Inr s'"
  shows "extensions_dict s' = extensions_dict s
       \<and> (aliased s \<longrightarrow> aliased s')
       \<and> (\<forall>k. k \<noteq> SubjectAlternativeName_key \<longrightarrow> extension_set s' k = extension_set s k)"
  using assms
proof (cases rule: update_san_from_cn_cases)
  case (present cn g san)
  then show ?thesis
    by (simp add: setdefault_frame aliased_setdefault extension_set_setdefault)
next
  case (appended cn g san)
  from mutate_setdefault [OF appended(7)] show ?thesis
    by (auto simp: unchanged_except_def)
next
  case (backfill v)
  then show ?thesis by simp
next
  case same
  then show ?thesis by simp
qed

lemma update_san_from_cn_subject:
  assumes "update_san_from_cn lib in_san s = Inr s'"
  shows "has_cn (cert_subject s) \<longrightarrow> cert_subject s' = cert_subject s"
  using assms
proof (cases rule: update_san_from_cn_cases)
  case (present cn g san)
  then show ?thesis by (simp add: setdefault_frame)
next
  case (appended cn g san)
  from mutate_setdefault [OF appended(7)] show ?thesis
    by (auto simp: unchanged_except_def)
next
  case (backfill v)
  then show ?thesis by simp
next
  case same
  then show ?thesis by simp
qed

lemma update_san_from_cn_names:
  assumes "update_san_from_cn lib in_san s = Inr s'"
      and "has_cn (cert_subject s)" and "in_san" and "cert_subject s ''CN'' = Some common"
  shows "\<exists>g san. parse_general_name lib common = Inr g
           \<and> extension_set s' SubjectAlternativeName_key = Some san
           \<and> names san = given_names (extension_set s) SubjectAlternativeName_key
                 @ (if g \<in> set (given_names (extension_set s) SubjectAlternativeName_key)
                    then [] else [g])"
  using assms(1)
proof (cases rule: update_san_from_cn_cases)
  case (present cn' g san)
  let ?K = SubjectAlternativeName_key
  from present(5) have "extension_set s ?K = None \<and> san = san_default lib
                        \<or> extension_set s ?K = Some san"
    by (rule extension_set_setdefault_same)
  then have "given_names (extension_set s) ?K = names san"
    by (auto simp: given_names_def san_default_def)
  with present assms(4) show ?thesis
    by (simp add: extension_set_setdefault)
next
  case (appended cn' g san)
  let ?K = SubjectAlternativeName_key
  from appended(5) have "extension_set s ?K = None \<and> san = san_default lib
                        \<or> extension_set s ?K = Some san"
    by (rule extension_set_setdefault_same)
  then have given: "given_names (extension_set s) ?K = names san"
    by (auto simp: given_names_def san_default_def)
  from mutate_Inr [OF appended(7)] appended(5) obtain e' where
    "extend_names [g] san = Inr e'" "extension_set s' ?K = Some e'"
    by auto
  with extend_names_Inr [of "[g]" san e'] given appended assms(4) show ?thesis
    by simp
next
  case (backfill v)
  with assms(2) show ?thesis by simp
next
  case same
  with assms(2,3) show ?thesis by simp
qed


lemma update_san_from_cn_unchanged:
  assumes "update_san_from_cn lib in_san s = Inr s'"
      and "\<not> (has_cn (cert_subject s) \<and> in_san)"
  shows "extension_set s' = extension_set s"
  using assms(1)
proof (cases rule: update_san_from_cn_cases)
  case (present cn g san)
  with assms(2) show ?thesis by simp
next
  case (appended cn g san)
  with assms(2) show ?thesis by simp
next
  case (backfill v)
  then show ?thesis by simp
next
  case same
  then show ?thesis by simp
qed

lemma has_cn_map_add: "has_cn n \<Longrightarrow> has_cn (m ++ n)"
  by (auto simp: has_cn_def map_add_def split: option.splits)

lemma prepare_facts:
  assumes "prepare lib p a args = Inr (iss, alg, s)"
  obtains s2 where
    "update_san_from_cn lib (or_default (cn_in_san_arg args) (cn_in_san p)) s2 = Inr s"
    "cert_subject s2 = subject p ++ or_default (subject_arg args) Map.empty"
    "extension_set s2 SubjectAlternativeName_key
       = given_extensions p args SubjectAlternativeName_key"
    "aliased s"
    "extensions_dict s SubjectAlternativeName_key = None
       \<longleftrightarrow> caller_dict (extensions_arg args) SubjectAlternativeName_key = None"
proof -
  let ?init = "initial_state p (extensions_arg args)"
  from prepare_Inr [OF assms] obtain s0 s1 where
    fr: "unchanged_except
       {AuthorityKeyIdentifier_key, CRLDistributionPoints_key,
        AuthorityInformationAccess_key, IssuerAlternativeName_key} ?init s1"
    and san: "update_san_from_cn lib (or_default (cn_in_san_arg args) (cn_in_san p))
       (s1\<lparr>cert_subject := cert_subject s1 ++ or_default (subject_arg args) Map.empty\<rparr>) = Inr s"
    by blast
  let ?s2 = "s1\<lparr>cert_subject := cert_subject s1 ++ or_default (subject_arg args) Map.empty\<rparr>"
  from fr have 1: "cert_subject s1 = subject p"
    and 2: "extension_set s1 SubjectAlternativeName_key
              = given_extensions p args SubjectAlternativeName_key"
    and 3: "aliased s1"
    and 4: "extensions_dict s1 = extensions_dict ?init"
    by (simp_all add: unchanged_except_def cert_subject_initial extension_set_initial
        given_extensions_def aliased_initial)
  from update_san_from_cn_frame [OF san] 3 4
  have 5: "aliased s" and 6: "extensions_dict s = extensions_dict ?init" by simp_all
  show ?thesis
    using san 1 2 5 6 by (intro that [of ?s2]) (simp_all add: extensions_dict_initial)
qed

lemma cast_extensions_other:
  "cast_extensions lib items m = Inr m' \<Longrightarrow> k \<notin> fst ` set items \<Longrightarrow> m' k = m k"
  by (induction lib items m rule: cast_extensions.induct) (auto simp: and_then_Inr)

lemma deprecated_extension_other:
  "deprecated_extension lib kw w k m = Inr m' \<Longrightarrow> k' \<noteq> k \<Longrightarrow> m' k' = m k'"
  by (auto simp: deprecated_extension_def and_then_Inr split: option.splits)

lemma deprecated_ocsp_no_check_other:
  "deprecated_ocsp_no_check lib kw m = Inr m' \<Longrightarrow> k' \<noteq> OCSPNoCheck_key \<Longrightarrow> m' k' = m k'"
  by (auto simp: deprecated_ocsp_no_check_def and_then_Inr split: option.splits)

lemma dict_setdefault_same:
  "dict_setdefault m k v k = Some (case m k of None \<Rightarrow> v | Some old \<Rightarrow> old)"
  by (simp add: dict_setdefault_def split: option.splits)

lemma dict_setdefault_present: "m k = Some old \<Longrightarrow> dict_setdefault m k v = m"
  by (simp add: dict_setdefault_def)

lemmas profile_test_defs =
  test_library_def test_constructor_def test_parse_general_name_def webserver_def test_args_def
  webserver_config_def root_ca_def

lemmas profile_defs =
  create_cert_def prepare_def update_from_ca_def update_crl_url_def update_ocsp_url_def
  update_issuer_url_def update_issuer_alt_name_def update_san_from_cn_def initial_state_def
  caller_dict_def caller_objects_def setdefault_def mutate_def lookup_def extension_set_def
  caller_set_def names_missing_def or_default_def has_cn_def dict_setdefault_def parse_name_def
  get_authority_key_identifier_extension_def DistributionPoint_def resolved_def

lemmas evaluation_defs = profile_defs py_split_def is_space_def py_strip_def Let_def map_add_def

subsection \<open>The constructor\<close>

text \<open>
  Claim C10. A profile that \<open>Profile.__init__\<close> returns has a BasicConstraints
  entry. The entry is the configured one where the configuration has one, and
  otherwise the object \<open>BasicConstraints()\<close> that the first \<open>setdefault\<close> inserted
  before the deprecated keywords are read: whatever the constructor returns for the
  literal of the last line, the second \<open>setdefault\<close> finds the key present.
\<close>

theorem Profile_init_basic_constraints:
  assumes "Profile_init lib nm cfg = Inr p"
  shows "\<exists>exts0 early.
           cast_extensions lib (or_default (config_extensions cfg) []) Map.empty = Inr exts0
           \<and> construct lib BasicConstraints_key None = Inr early
           \<and> extensions p BasicConstraints_key
               = Some (case exts0 BasicConstraints_key of None \<Rightarrow> early | Some given \<Rightarrow> given)
           \<and> (BasicConstraints_key \<notin> fst ` set (or_default (config_extensions cfg) []) \<longrightarrow>
                extensions p BasicConstraints_key = Some early)"
proof -
  let ?B = BasicConstraints_key
  from assms obtain alg exts0 early exts1 exts2 exts3 exts4 late where
    c: "cast_extensions lib (or_default (config_extensions cfg) []) Map.empty = Inr exts0"
    and e: "construct lib ?B None = Inr early"
    and 1: "deprecated_extension lib (kwargs cfg) ''keyUsage'' KeyUsage_key
              (dict_setdefault exts0 ?B early) = Inr exts1"
    and 2: "deprecated_extension lib (kwargs cfg) ''extendedKeyUsage'' ExtendedKeyUsage_key exts1
              = Inr exts2"
    and 3: "deprecated_extension lib (kwargs cfg) ''TLSFeature'' TLSFeature_key exts2 = Inr exts3"
    and 4: "deprecated_ocsp_no_check lib (kwargs cfg) exts3 = Inr exts4"
    and p: "extensions p = dict_setdefault exts4 ?B late"
    by (auto simp: Profile_init_def and_then_Inr split: option.splits)
  have "exts4 ?B = dict_setdefault exts0 ?B early ?B"
    using deprecated_extension_other [OF 1, of ?B] deprecated_extension_other [OF 2, of ?B]
      deprecated_extension_other [OF 3, of ?B] deprecated_ocsp_no_check_other [OF 4, of ?B]
    by simp
  then have present: "exts4 ?B = Some (case exts0 ?B of None \<Rightarrow> early | Some given \<Rightarrow> given)"
    by (simp add: dict_setdefault_same)
  then have "extensions p = exts4" using p by (simp add: dict_setdefault_present)
  with present have entry:
    "extensions p ?B = Some (case exts0 ?B of None \<Rightarrow> early | Some given \<Rightarrow> given)"
    by simp
  have "extensions p ?B = Some early"
    if "?B \<notin> fst ` set (or_default (config_extensions cfg) [])"
    using cast_extensions_other [OF c that] entry by simp
  with c e entry show ?thesis by blast
qed

theorem Profile_init_basic_constraints_witness:
  "\<exists>p. Profile_init test_library ''webserver'' webserver_config = Inr p
       \<and> extensions p BasicConstraints_key = Some (BasicConstraints True False None)
       \<and> construct test_library BasicConstraints_key (Some ca_false_literal)
           = Inr (BasicConstraints False False None)"
proof -
  have "\<exists>p. Profile_init test_library ''webserver'' webserver_config = Inr p"
    by (simp add: Profile_init_def profile_test_defs construct_def deprecated_extension_def
        deprecated_ocsp_no_check_def or_default_def ca_false_literal_def dict_setdefault_def)
  then obtain p where p: "Profile_init test_library ''webserver'' webserver_config = Inr p" ..
  have absent: "BasicConstraints_key \<notin> fst ` set (or_default (config_extensions webserver_config) [])"
    by (simp add: webserver_config_def or_default_def)
  have early: "construct test_library BasicConstraints_key None
                 = Inr (BasicConstraints True False None)"
    by (simp add: construct_def test_library_def test_constructor_def)
  have late: "construct test_library BasicConstraints_key (Some ca_false_literal)
                 = Inr (BasicConstraints False False None)"
    by (simp add: construct_def test_library_def test_constructor_def ca_false_literal_def)
  from Profile_init_basic_constraints [OF p] absent early
  have "extensions p BasicConstraints_key = Some (BasicConstraints True False None)"
    by auto
  with p late show ?thesis by blast
qed

subsection \<open>Values from the CA\<close>

text \<open>
  Claim C5, as amended. When the CRL-URL field of the CA splits into two URLs and CRL
  URLs are to be added, an issued certificate has a CRLDistributionPoints extension
  whose distribution points are the ones the call started from (the caller's, else
  the profile's, else none), all kept and in order, followed by one distribution
  point whose full names are exactly the two URLs in the order of the field. When the
  call starts from no CRLDistributionPoints, the extension has this one distribution
  point and so exactly the two full names.
\<close>

theorem crl_distribution_points_from_ca:
  assumes "create_cert lib p a args = Inr c"
      and "or_default (add_crl_url_arg args) (add_crl_url p)"
      and "py_split (crl_url a) = [u1, u2]"
  shows "(\<exists>crit. x509_extensions c CRLDistributionPoints_key
           = Some (CRLDistributionPoints crit
                     (given_points (given_extensions p args) @ [DistributionPoint [u1, u2]])))
       \<and> (given_extensions p args CRLDistributionPoints_key = None \<longrightarrow>
            (\<exists>crit. x509_extensions c CRLDistributionPoints_key
               = Some (CRLDistributionPoints crit [DistributionPoint [u1, u2]])))
       \<and> full_name (DistributionPoint [u1, u2]) = [u1, u2]"
proof -
  let ?K = CRLDistributionPoints_key
  from create_cert_Inr [OF assms(1)] obtain iss alg s where
    p: "prepare lib p a args = Inr (iss, alg, s)"
    and x: "x509_extensions c =
       dict_setdefault (extension_set s) SubjectKeyIdentifier_key
         (SubjectKeyIdentifier False (key_identifier lib (csr args)))"
    by blast
  from prepare_Inr [OF p] obtain s0 s1 where
    crl: "update_crl_url lib a (or_default (add_crl_url_arg args) (add_crl_url p))
       (setdefault (initial_state p (extensions_arg args)) AuthorityKeyIdentifier_key
          (get_authority_key_identifier_extension a)) = Inr s0"
    and rest: "unchanged_except {AuthorityInformationAccess_key, IssuerAlternativeName_key} s0 s1"
    and san: "update_san_from_cn lib (or_default (cn_in_san_arg args) (cn_in_san p))
       (s1\<lparr>cert_subject := cert_subject s1 ++ or_default (subject_arg args) Map.empty\<rparr>) = Inr s"
    by blast
  have url: "crl_url a \<noteq> []" using assms(3) by (auto simp: py_split_Nil)
  have dp: "map py_strip (py_split (crl_url a)) = [u1, u2]"
    using strip_split [of "crl_url a"] assms(3) by simp
  have start: "extension_set
                 (setdefault (initial_state p (extensions_arg args)) AuthorityKeyIdentifier_key
                    (get_authority_key_identifier_extension a)) ?K
               = given_extensions p args ?K"
    by (simp add: extension_set_setdefault extension_set_initial given_extensions_def)
  from update_crl_url_appends [OF _ url] crl assms(2) dp start obtain crit prev where
    after: "extension_set s0 ?K = Some (CRLDistributionPoints crit (prev @ [DistributionPoint [u1, u2]]))"
    and before: "given_extensions p args ?K = None \<and> prev = []
                 \<or> given_extensions p args ?K = Some (CRLDistributionPoints crit prev)"
    by (metis (full_types))
  from before have prev: "given_points (given_extensions p args) = prev"
    by (auto simp: given_points_def)
  have "extension_set s1 ?K = extension_set s0 ?K"
    using rest by (simp add: unchanged_except_def)
  moreover have "extension_set s ?K = extension_set s1 ?K"
    using update_san_from_cn_frame [OF san] by simp
  ultimately have "x509_extensions c ?K = extension_set s0 ?K"
    using x by (simp add: dict_setdefault_other)
  with after prev have all: "\<exists>crit. x509_extensions c CRLDistributionPoints_key
           = Some (CRLDistributionPoints crit
                     (given_points (given_extensions p args) @ [DistributionPoint [u1, u2]]))"
    by simp
  have "given_points (given_extensions p args) = []"
    if "given_extensions p args CRLDistributionPoints_key = None"
    using that by (simp add: given_points_def)
  with all have two: "given_extensions p args CRLDistributionPoints_key = None \<longrightarrow>
            (\<exists>crit. x509_extensions c CRLDistributionPoints_key
               = Some (CRLDistributionPoints crit [DistributionPoint [u1, u2]]))"
    by auto
  have "full_name (DistributionPoint [u1, u2]) = [u1, u2]"
    by (simp add: DistributionPoint_def)
  with all two show ?thesis by blast
qed

theorem crl_distribution_points_from_ca_witness:
  "\<exists>c crit. create_cert test_library webserver root_ca test_args = Inr c
     \<and> x509_extensions c CRLDistributionPoints_key
         = Some (CRLDistributionPoints crit
                   [DistributionPoint [''http://crl.example.com'', ''http://crl.example.org'']])"
proof -
  have "\<exists>c. create_cert test_library webserver root_ca test_args = Inr c"
    by (simp add: evaluation_defs profile_test_defs)
  then obtain c where c: "create_cert test_library webserver root_ca test_args = Inr c" ..
  have flag: "or_default (add_crl_url_arg test_args) (add_crl_url webserver)"
    by (simp add: or_default_def test_args_def webserver_def)
  have urls: "py_split (crl_url root_ca) = [''http://crl.example.com'', ''http://crl.example.org'']"
    by (simp add: root_ca_def py_split_def is_space_def)
  have absent: "given_extensions webserver test_args CRLDistributionPoints_key = None"
    by (simp add: given_extensions_def webserver_def test_args_def caller_dict_def)
  from crl_distribution_points_from_ca [OF c flag urls] absent c show ?thesis by auto
qed

text \<open>
  The claim as stated fails where the call starts from a distribution point: the
  caller passes a CRLDistributionPoints extension with one full name, the CA has two
  CRL URLs and CRL URLs are added. The docstring of \<open>create_cert\<close> says that the
  values of the CA are appended to the extensions passed; the certificate has three
  full names.
\<close>

theorem crl_distribution_points_counterexample:
  "or_default (add_crl_url_arg args_with_point) (add_crl_url webserver)
   \<and> py_split (crl_url root_ca) = [''http://crl.example.com'', ''http://crl.example.org'']
   \<and> issued_crl_full_names test_library webserver root_ca args_with_point
       = Some [''http://old.example.net'', ''http://crl.example.com'', ''http://crl.example.org'']"
  by (simp add: evaluation_defs profile_test_defs issued_crl_full_names_def full_names_def
      args_with_point_def)

subsection \<open>The Common Name and the SubjectAlternativeName\<close>



subsection \<open>The check of the names\<close>

text \<open>
  What the guard of \<open>create_cert\<close> reads. Let the steps before the check succeed, with
  the final subject and extension set they resolve. If the final subject has no Common
  Name and the final extension set has no non-empty SubjectAlternativeName, the call
  fails with the no-identity error. The call fails with that error exactly when the
  \<open>subject\<close> argument of the caller has no Common Name and the extensions of the
  caller hold no SubjectAlternativeName that is non-empty when it is checked, that
  is, one that has names of its own or has received the name of the Common Name.
\<close>

theorem names_check:
  assumes "resolved lib p a args = Some (sub, exts)"
  shows "(\<not> has_cn sub \<and> given_names exts SubjectAlternativeName_key = [] \<longrightarrow>
            create_cert lib p a args = Inl NoIdentityError)
       \<and> (create_cert lib p a args = Inl NoIdentityError \<longleftrightarrow>
            \<not> has_cn (or_default (subject_arg args) Map.empty)
            \<and> (case caller_dict (extensions_arg args) SubjectAlternativeName_key of
                 None \<Rightarrow> True
               | Some san \<Rightarrow>
                   names san = []
                   \<and> \<not> (or_default (cn_in_san_arg args) (cn_in_san p)
                        \<and> has_cn (subject p ++ or_default (subject_arg args) Map.empty))))"
proof -
  let ?K = SubjectAlternativeName_key
  let ?in_san = "or_default (cn_in_san_arg args) (cn_in_san p)"
  let ?arg = "or_default (subject_arg args) Map.empty"
  from assms obtain iss alg s where
    pr: "prepare lib p a args = Inr (iss, alg, s)"
    and sub: "sub = cert_subject s" and exts: "exts = extension_set s"
    by (auto simp: resolved_def split: sum.splits prod.splits)
  from prepare_facts [OF pr] obtain s2 where
    san: "update_san_from_cn lib ?in_san s2 = Inr s"
    and sub2: "cert_subject s2 = subject p ++ ?arg"
    and ext2: "extension_set s2 ?K = given_extensions p args ?K"
    and al: "aliased s"
    and dict: "extensions_dict s ?K = None \<longleftrightarrow> caller_dict (extensions_arg args) ?K = None"
    by blast
  have view: "caller_set s ?K
                = (if caller_dict (extensions_arg args) ?K = None then None else extension_set s ?K)"
    using caller_set_aliased [OF al, of ?K] dict by simp
  have check: "create_cert lib p a args = Inl NoIdentityError \<longleftrightarrow> names_missing args s"
    using pr by (rule create_cert_no_identity)
  have first: "names_missing args s"
    if no_cn: "\<not> has_cn sub" and no_san: "given_names exts ?K = []"
  proof -
    have "\<not> has_cn ?arg"
    proof
      assume "has_cn ?arg"
      then have "has_cn (cert_subject s2)" using sub2 by (simp add: has_cn_map_add)
      with update_san_from_cn_subject [OF san] have "has_cn (cert_subject s)" by simp
      with no_cn sub show False by simp
    qed
    moreover have "case caller_set s ?K of None \<Rightarrow> True | Some e \<Rightarrow> names e = []"
      using view no_san exts by (auto simp: given_names_def split: option.splits)
    ultimately show ?thesis by (simp add: names_missing_def)
  qed
  have second: "(case caller_set s ?K of None \<Rightarrow> True | Some e \<Rightarrow> names e = [])
          \<longleftrightarrow> (case caller_dict (extensions_arg args) ?K of
                 None \<Rightarrow> True
               | Some e \<Rightarrow> names e = [] \<and> \<not> (?in_san \<and> has_cn (subject p ++ ?arg)))"
  proof (cases "caller_dict (extensions_arg args) ?K")
    case None
    with view show ?thesis by simp
  next
    case (Some e0)
    then have given: "given_extensions p args ?K = Some e0"
      by (simp add: given_extensions_def)
    show ?thesis
    proof (cases "?in_san \<and> has_cn (subject p ++ ?arg)")
      case True
      then obtain common where cn: "cert_subject s2 ''CN'' = Some common"
        using sub2 by (auto simp: has_cn_def split: option.splits)
      from True sub2 have "has_cn (cert_subject s2)" by simp
      from update_san_from_cn_names [OF san this _ cn] True obtain g e where
        "extension_set s ?K = Some e"
        "names e = given_names (extension_set s2) ?K
                   @ (if g \<in> set (given_names (extension_set s2) ?K) then [] else [g])"
        by blast
      then have "extension_set s ?K = Some e" "names e \<noteq> []"
        by (auto split: if_splits)
      with view Some True show ?thesis by simp
    next
      case False
      with sub2 have "\<not> (has_cn (cert_subject s2) \<and> ?in_san)" by auto
      from update_san_from_cn_unchanged [OF san this] ext2 given
      have "extension_set s ?K = Some e0" by simp
      with view Some False show ?thesis by simp
    qed
  qed
  from first check second show ?thesis
    by (simp add: names_missing_def)
qed

theorem names_check_witness:
  "(\<exists>sub exts. resolved test_library webserver root_ca (test_args\<lparr>subject_arg := None\<rparr>)
                  = Some (sub, exts))
   \<and> create_cert test_library webserver root_ca (test_args\<lparr>subject_arg := None\<rparr>)
       = Inl NoIdentityError
   \<and> create_cert test_library webserver root_ca test_args \<noteq> Inl NoIdentityError
   \<and> create_cert test_library (webserver\<lparr>subject := [''CN'' \<mapsto> ''www.example.com'']\<rparr>) root_ca
        (test_args\<lparr>subject_arg := None,
                    extensions_arg := Some [SubjectAlternativeName False []]\<rparr>)
       \<noteq> Inl NoIdentityError"
proof -
  let ?named = "webserver\<lparr>subject := [''CN'' \<mapsto> ''www.example.com'']\<rparr>"
  let ?empty_san = "test_args\<lparr>subject_arg := None,
                               extensions_arg := Some [SubjectAlternativeName False []]\<rparr>"
  have "\<exists>sub exts. resolved test_library ?named root_ca ?empty_san = Some (sub, exts)"
    by (simp add: evaluation_defs profile_test_defs)
  then obtain sub2 exts2 where
    r2: "resolved test_library ?named root_ca ?empty_san = Some (sub2, exts2)"
    by blast
  have san2: "caller_dict (extensions_arg ?empty_san) SubjectAlternativeName_key
                = Some (SubjectAlternativeName False [])"
    by (simp add: caller_dict_def caller_objects_def)
  have flag2: "or_default (cn_in_san_arg ?empty_san) (cn_in_san ?named)"
    by (simp add: or_default_def test_args_def webserver_def)
  have cn2: "has_cn (subject ?named ++ or_default (subject_arg ?empty_san) Map.empty)"
    by (simp add: or_default_def has_cn_def)
  from names_check [OF r2] san2 flag2 cn2
  have third: "create_cert test_library ?named root_ca ?empty_san \<noteq> Inl NoIdentityError"
    by simp
  have "\<exists>sub exts. resolved test_library webserver root_ca (test_args\<lparr>subject_arg := None\<rparr>)
                     = Some (sub, exts)"
    by (simp add: evaluation_defs profile_test_defs)
  then obtain sub exts where
    r: "resolved test_library webserver root_ca (test_args\<lparr>subject_arg := None\<rparr>)
          = Some (sub, exts)"
    by blast
  have "\<exists>sub exts. resolved test_library webserver root_ca test_args = Some (sub, exts)"
    by (simp add: evaluation_defs profile_test_defs)
  then obtain sub' exts' where
    r': "resolved test_library webserver root_ca test_args = Some (sub', exts')"
    by blast
  have no_cn: "\<not> has_cn (or_default (subject_arg (test_args\<lparr>subject_arg := None\<rparr>)) Map.empty)"
    by (simp add: or_default_def has_cn_def)
  have no_san: "caller_dict (extensions_arg (test_args\<lparr>subject_arg := None\<rparr>))
                  SubjectAlternativeName_key = None"
    by (simp add: caller_dict_def test_args_def)
  have with_cn: "has_cn (or_default (subject_arg test_args) Map.empty)"
    by (simp add: or_default_def has_cn_def test_args_def)
  from names_check [OF r] no_cn no_san
  have "create_cert test_library webserver root_ca (test_args\<lparr>subject_arg := None\<rparr>)
          = Inl NoIdentityError"
    by simp
  moreover from names_check [OF r'] with_cn
  have "create_cert test_library webserver root_ca test_args \<noteq> Inl NoIdentityError"
    by simp
  ultimately show ?thesis using r third by blast
qed

text \<open>
  Claim C1. The code breaks the second half of the claim. The guard reads the
  \<open>subject\<close> and \<open>extensions\<close> of the caller, where the comment above it, the call of
  \<open>_update_san_from_cn\<close> before it and the builder after it work on \<open>cert_subject\<close>
  and \<open>cert_extensions\<close>. A profile whose subject has a Common Name, called with no
  subject and no extensions, resolves a subject with the Common Name and an extension
  set with the name of the Common Name in its SubjectAlternativeName, and the call
  fails with the no-identity error. So does a call to a profile that has a
  SubjectAlternativeName, from whose first DNS entry the Common Name is taken.
\<close>

theorem create_cert_rejects_profile_identity:
  "map_option (has_cn \<circ> fst) (resolved test_library named_profile root_ca bare_args) = Some True
   \<and> map_option (subject_alternative_names \<circ> snd)
       (resolved test_library named_profile root_ca bare_args) = Some [DNSName ''www.example.com'']
   \<and> create_cert test_library named_profile root_ca bare_args = Inl NoIdentityError
   \<and> map_option (has_cn \<circ> fst) (resolved test_library san_profile root_ca bare_args) = Some True
   \<and> map_option (subject_alternative_names \<circ> snd)
       (resolved test_library san_profile root_ca bare_args) = Some [DNSName ''www.example.com'']
   \<and> create_cert test_library san_profile root_ca bare_args = Inl NoIdentityError"
  by (simp add: evaluation_defs profile_test_defs subject_alternative_names_def given_names_def
      named_profile_def san_profile_def bare_args_def get_common_name_def)

section \<open>Properties of the CRL generator\<close>

lemma generate_Inr:
  "generate lk now st a sc fn ck alg ex pw = Inr (c, st') \<Longrightarrow>
     crl_number c = counter_value st (serial a, sc, ck)
     \<and> counter_value st' (serial a, sc, ck) = crl_number c + 1
     \<and> (\<forall>cid. cid \<noteq> (serial a, sc, ck) \<longrightarrow> counter_value st' cid = counter_value st cid)
     \<and> crl_cache st' = crl_cache st"
  by (auto simp: generate_def counter_value_def split: if_splits option.splits)

lemma generate_fails:
  "generation_fails lk a prof \<Longrightarrow>
     \<exists>e. generate lk now st a (profile_scope prof) fn ck alg ex (effective_password prof a) = Inl e"
  by (auto simp: generation_fails_def generate_def)

lemma store_encodings_other:
  "alg \<noteq> profile_algorithm prof \<or> sc \<noteq> profile_scope prof \<Longrightarrow>
     store_encodings a prof c encs m (ser, alg, enc, sc) = m (ser, alg, enc, sc)"
proof -
  assume other: "alg \<noteq> profile_algorithm prof \<or> sc \<noteq> profile_scope prof"
  have "fold (\<lambda>enc' m'. m'((serial a, profile_algorithm prof, enc', profile_scope prof)
                           \<mapsto> \<lparr>cached = (enc', c), ttl = profile_expires prof\<rparr>))
          encs m (ser, alg, enc, sc) = m (ser, alg, enc, sc)"
    using other by (induction encs arbitrary: m) auto
  then show ?thesis by (simp add: store_encodings_def)
qed

lemma cache_crl_profile_unusable:
  "skipped prof a \<or> generation_fails lk a prof \<Longrightarrow> cache_crl_profile lk now a prof st = st"
proof (cases "skipped prof a")
  case True
  then show ?thesis by (simp add: cache_crl_profile_def)
next
  case False
  assume "skipped prof a \<or> generation_fails lk a prof"
  with False have "generation_fails lk a prof" by simp
  from generate_fails [OF this] obtain e where
    "generate lk now st a (profile_scope prof) None None (profile_algorithm prof)
       (profile_expires prof) (effective_password prof a) = Inl e"
    by blast
  with False show ?thesis by (simp add: cache_crl_profile_def)
qed

lemma cache_crl_profile_other_slot:
  assumes "alg \<noteq> profile_algorithm prof \<or> sc \<noteq> profile_scope prof"
  shows "crl_cache (cache_crl_profile lk now a prof st) (ser, alg, enc, sc)
           = crl_cache st (ser, alg, enc, sc)"
proof (cases "generate lk now st a (profile_scope prof) None None (profile_algorithm prof)
                (profile_expires prof) (effective_password prof a)")
  case (Inl e)
  then show ?thesis by (simp add: cache_crl_profile_def)
next
  case (Inr r)
  obtain c st' where r: "r = (c, st')" by (cases r)
  from generate_Inr [OF Inr [unfolded r]] have "crl_cache st' = crl_cache st" by simp
  with Inr r assms show ?thesis
    by (simp add: cache_crl_profile_def store_encodings_other)
qed

lemma cache_crls_slot:
  assumes "list_all (\<lambda>prof. (profile_algorithm prof = alg \<and> profile_scope prof = sc)
                        \<longrightarrow> skipped prof a \<or> generation_fails lk a prof) profiles"
  shows "crl_cache (cache_crls lk now a profiles st) (ser, alg, enc, sc)
           = crl_cache st (ser, alg, enc, sc)"
  using assms
proof (induction profiles arbitrary: st)
  case Nil
  then show ?case by (simp add: cache_crls_def)
next
  case (Cons prof profiles)
  from Cons.prems have rest: "list_all (\<lambda>prof. (profile_algorithm prof = alg \<and> profile_scope prof = sc)
                        \<longrightarrow> skipped prof a \<or> generation_fails lk a prof) profiles"
    by simp
  have step: "crl_cache (cache_crl_profile lk now a prof st) (ser, alg, enc, sc)
                = crl_cache st (ser, alg, enc, sc)"
  proof (cases "profile_algorithm prof = alg \<and> profile_scope prof = sc")
    case True
    with Cons.prems have "skipped prof a \<or> generation_fails lk a prof" by simp
    then show ?thesis by (simp add: cache_crl_profile_unusable)
  next
    case False
    then have "alg \<noteq> profile_algorithm prof \<or> sc \<noteq> profile_scope prof" by auto
    then show ?thesis by (rule cache_crl_profile_other_slot)
  qed
  have "cache_crls lk now a (prof # profiles) st
          = cache_crls lk now a profiles (cache_crl_profile lk now a prof st)"
    by (simp add: cache_crls_def)
  with Cons.IH [OF rest, of "cache_crl_profile lk now a prof st"] step show ?case by simp
qed

lemmas crl_test_defs =
  test_store_def test_load_key_def user_profile_def ca_profile_def root_ca_def child_ca_def
  good_cert_def revoked_cert_def

text \<open>
  Claim C2. With a valid scope and a key that loads, three generations in succession
  on a counter that was never used yield the CRL numbers 0, 1 and 2, and a generation
  on another counter key of the same CA and scope, never used either, yields 0 again.
  On any store, a generation returns the value of its counter and raises it by one,
  and leaves every other counter alone: of two successive generations on one counter
  the second has the larger number, whatever the other arguments are.
\<close>

theorem crl_numbers_count_up:
  assumes "valid_scope sc" and "lk a pw = Some k"
      and "crl_numbers st (serial a, sc, ck) = None"
      and "crl_numbers st (serial a, sc, ck') = None" and "ck' \<noteq> ck"
  shows "(\<exists>c1 st1 c2 st2 c3 st3 c4 st4.
           generate lk now st a sc fn ck alg ex pw = Inr (c1, st1)
         \<and> generate lk now st1 a sc fn ck alg ex pw = Inr (c2, st2)
         \<and> generate lk now st2 a sc fn ck alg ex pw = Inr (c3, st3)
         \<and> generate lk now st3 a sc fn ck' alg ex pw = Inr (c4, st4)
         \<and> crl_number c1 = 0 \<and> crl_number c2 = 1 \<and> crl_number c3 = 2 \<and> crl_number c4 = 0)
       \<and> (\<forall>s s' s'' c c' fn' alg' ex' pw' now'.
           generate lk now s a sc fn ck alg ex pw = Inr (c, s')
         \<and> generate lk now' s' a sc fn' ck alg' ex' pw' = Inr (c', s'')
         \<longrightarrow> crl_number c' = crl_number c + 1 \<and> crl_number c < crl_number c')
       \<and> (\<forall>s s' c cid.
           generate lk now s a sc fn ck alg ex pw = Inr (c, s') \<and> cid \<noteq> (serial a, sc, ck)
         \<longrightarrow> counter_value s' cid = counter_value s cid)"
proof -
  have first: "\<exists>c1 st1 c2 st2 c3 st3 c4 st4.
           generate lk now st a sc fn ck alg ex pw = Inr (c1, st1)
         \<and> generate lk now st1 a sc fn ck alg ex pw = Inr (c2, st2)
         \<and> generate lk now st2 a sc fn ck alg ex pw = Inr (c3, st3)
         \<and> generate lk now st3 a sc fn ck' alg ex pw = Inr (c4, st4)
         \<and> crl_number c1 = 0 \<and> crl_number c2 = 1 \<and> crl_number c3 = 2 \<and> crl_number c4 = 0"
    using assms by (simp add: generate_def counter_value_def)
  have second: "\<forall>s s' s'' c c' fn' alg' ex' pw' now'.
           generate lk now s a sc fn ck alg ex pw = Inr (c, s')
         \<and> generate lk now' s' a sc fn' ck alg' ex' pw' = Inr (c', s'')
         \<longrightarrow> crl_number c' = crl_number c + 1 \<and> crl_number c < crl_number c'"
    using generate_Inr by fastforce
  have third: "\<forall>s s' c cid.
           generate lk now s a sc fn ck alg ex pw = Inr (c, s') \<and> cid \<noteq> (serial a, sc, ck)
         \<longrightarrow> counter_value s' cid = counter_value s cid"
    using generate_Inr by blast
  from first second third show ?thesis by blast
qed

theorem crl_numbers_count_up_witness:
  "\<exists>c1 st1 c2 st2 c3 st3 c4 st4.
     generate test_load_key 5000 test_store root_ca None None (Some ''test'') SHA512 600
       (Some ''secret'') = Inr (c1, st1)
   \<and> generate test_load_key 5000 st1 root_ca None None (Some ''test'') SHA512 600
       (Some ''secret'') = Inr (c2, st2)
   \<and> generate test_load_key 5000 st2 root_ca None None (Some ''test'') SHA512 600
       (Some ''secret'') = Inr (c3, st3)
   \<and> generate test_load_key 5000 st3 root_ca None None None SHA512 600
       (Some ''secret'') = Inr (c4, st4)
   \<and> crl_number c1 = 0 \<and> crl_number c2 = 1 \<and> crl_number c3 = 2 \<and> crl_number c4 = 0"
proof -
  have v: "valid_scope None" by (simp add: valid_scope_def)
  have k: "test_load_key root_ca (Some ''secret'') = Some (''key-'' @ serial root_ca)"
    by (simp add: test_load_key_def)
  have f1: "crl_numbers test_store (serial root_ca, None, Some ''test'') = None"
    by (simp add: test_store_def)
  have f2: "crl_numbers test_store (serial root_ca, None, None) = None"
    by (simp add: test_store_def)
  have d: "(None :: string option) \<noteq> Some ''test''" by simp
  from crl_numbers_count_up
         [where lk = test_load_key and a = root_ca and pw = "Some ''secret''" and st = test_store
            and sc = None and ck = "Some ''test''" and ck' = None and now = 5000 and fn = None
            and alg = SHA512 and ex = 600,
          OF v k f1 f2 d]
  show ?thesis by blast
qed

text \<open>
  Claim C9, as amended. \<open>cache_crls\<close> returns a store for every configuration: a
  profile that is skipped for the CA or whose generation fails leaves the store as it
  was. If every profile of a digest and scope is skipped or fails for the CA, every
  cache slot of that digest and scope holds after the call what it held before, for
  every encoding; a slot that was absent is absent, and none of the encodings of a
  failing profile is written.
\<close>

theorem cache_crls_unusable_slot:
  assumes "list_all (\<lambda>prof. (profile_algorithm prof = alg \<and> profile_scope prof = sc)
                        \<longrightarrow> skipped prof a \<or> generation_fails lk a prof) profiles"
  shows "crl_cache (cache_crls lk now a profiles st) (serial a, alg, enc, sc)
           = crl_cache st (serial a, alg, enc, sc)
       \<and> (crl_cache st (serial a, alg, enc, sc) = None \<longrightarrow>
            crl_cache (cache_crls lk now a profiles st) (serial a, alg, enc, sc) = None)
       \<and> (\<forall>prof st'. skipped prof a \<or> generation_fails lk a prof \<longrightarrow>
            cache_crl_profile lk now a prof st' = st')"
  using cache_crls_slot [OF assms] cache_crl_profile_unusable by simp

theorem cache_crls_unusable_slot_witness:
  "generation_fails test_load_key root_ca ca_profile
   \<and> crl_cache (cache_crls test_load_key 5000 root_ca [ca_profile, user_profile] test_store)
       (serial root_ca, SHA512, DER, Some ''ca'') = None
   \<and> crl_cache (cache_crls test_load_key 5000 root_ca [ca_profile, user_profile] test_store)
       (serial root_ca, SHA512, PEM, Some ''ca'') = None
   \<and> crl_cache (cache_crls test_load_key 5000 root_ca [ca_profile, user_profile] test_store)
       (serial root_ca, SHA512, DER, Some ''user'') \<noteq> None"
proof -
  have fails: "generation_fails test_load_key root_ca ca_profile"
    by (simp add: generation_fails_def effective_password_def crl_test_defs)
  have all: "list_all (\<lambda>prof. (profile_algorithm prof = SHA512 \<and> profile_scope prof = Some ''ca'')
                        \<longrightarrow> skipped prof root_ca \<or> generation_fails test_load_key root_ca prof)
               [ca_profile, user_profile]"
    using fails by (simp add: user_profile_def)
  have empty: "crl_cache test_store (serial root_ca, SHA512, DER, Some ''ca'') = None"
    "crl_cache test_store (serial root_ca, SHA512, PEM, Some ''ca'') = None"
    by (simp_all add: test_store_def)
  have user: "crl_cache (cache_crls test_load_key 5000 root_ca [ca_profile, user_profile] test_store)
       (serial root_ca, SHA512, DER, Some ''user'') \<noteq> None"
    by (simp add: cache_crls_def cache_crl_profile_def skipped_def generate_def valid_scope_def
        effective_password_def effective_encodings_def store_encodings_def crl_test_defs)
  from cache_crls_unusable_slot [OF all, of 5000 test_store DER]
       cache_crls_unusable_slot [OF all, of 5000 test_store PEM] empty fails user
  show ?thesis by simp
qed

text \<open>
  The claim as stated fails where the slot was filled before: a first refresh at time
  5000 caches the CRL of the user scope, and a second refresh at time 6000, with a
  profile whose password is wrong or that skips the CA, leaves that CRL in the slot.
\<close>

theorem cache_crls_stale_counterexample:
  "generation_fails test_load_key root_ca wrong_password_profile
   \<and> map_option (crl_this_update \<circ> snd \<circ> cached)
       (crl_cache
          (cache_crls test_load_key 6000 root_ca [wrong_password_profile]
             (cache_crls test_load_key 5000 root_ca [user_profile] test_store))
          (serial root_ca, SHA512, DER, Some ''user'')) = Some 5000
   \<and> skipped skipping_profile root_ca
   \<and> map_option (crl_this_update \<circ> snd \<circ> cached)
       (crl_cache
          (cache_crls test_load_key 6000 root_ca [skipping_profile]
             (cache_crls test_load_key 5000 root_ca [user_profile] test_store))
          (serial root_ca, SHA512, DER, Some ''user'')) = Some 5000"
  by (simp add: cache_crls_def cache_crl_profile_def skipped_def generate_def valid_scope_def
      generation_fails_def effective_password_def effective_encodings_def store_encodings_def
      or_default_def wrong_password_profile_def skipping_profile_def crl_test_defs)

end
